theory Spec2Isabelle
  imports Main
begin

section \<open>The relation store read by awx/main/access.py\<close>

text \<open>
  The access classes read Django models through querysets. The store below holds one table
  (a list of rows) per model class. A foreign key is the primary key of the row it points
  to; a many-to-many relation is the list of primary keys kept on the side that declares
  it, and the reverse accessor (\<open>user.teams\<close>, \<open>project.organizations\<close>, ...) is the
  filter over the declaring table. Two model instances are equal in Python when their
  primary keys are equal, so every comparison of instances below is a comparison of keys.
\<close>

text \<open>
  The five permission-type constants that access.py imports from the models module. Their
  string values are not part of access.py; they are five different constants, and the same
  constants are the values of a job template's job type.
\<close>

datatype perm_type =
  PERM_INVENTORY_ADMIN
| PERM_INVENTORY_READ
| PERM_INVENTORY_WRITE
| PERM_INVENTORY_DEPLOY
| PERM_INVENTORY_CHECK

definition PERMISSION_TYPES :: "perm_type list" where
  "PERMISSION_TYPES =
     [PERM_INVENTORY_ADMIN, PERM_INVENTORY_READ, PERM_INVENTORY_WRITE,
      PERM_INVENTORY_DEPLOY, PERM_INVENTORY_CHECK]"

definition PERMISSION_TYPES_ALLOWING_INVENTORY_READ :: "perm_type list" where
  "PERMISSION_TYPES_ALLOWING_INVENTORY_READ =
     [PERM_INVENTORY_ADMIN, PERM_INVENTORY_WRITE, PERM_INVENTORY_READ]"

definition PERMISSION_TYPES_ALLOWING_INVENTORY_WRITE :: "perm_type list" where
  "PERMISSION_TYPES_ALLOWING_INVENTORY_WRITE =
     [PERM_INVENTORY_ADMIN, PERM_INVENTORY_WRITE]"

definition PERMISSION_TYPES_ALLOWING_INVENTORY_ADMIN :: "perm_type list" where
  "PERMISSION_TYPES_ALLOWING_INVENTORY_ADMIN = [PERM_INVENTORY_ADMIN]"

record user =
  user_pk :: int
  is_superuser :: bool
  is_active :: bool

record organization =
  organization_pk :: int
  organization_admins :: "int list"
  organization_users :: "int list"
  organization_projects :: "int list"

record team =
  team_pk :: int
  team_organization :: int
  team_users :: "int list"
  team_projects :: "int list"
  team_active :: bool

record inventory =
  inventory_pk :: int
  inventory_organization :: int
  inventory_active :: bool

record host =
  host_pk :: int
  host_inventory :: int
  host_active :: bool

record group =
  group_pk :: int
  group_inventory :: int
  group_parents :: "int list"
  group_active :: bool

record credential =
  credential_pk :: int
  credential_user :: "int option"
  credential_team :: "int option"
  credential_active :: bool

record permission =
  permission_pk :: int
  permission_user :: "int option"
  permission_team :: "int option"
  permission_inventory :: "int option"
  permission_project :: "int option"
  permission_type :: perm_type

record project =
  project_pk :: int
  project_created_by :: "int option"

record job_template =
  job_template_pk :: int
  job_template_inventory :: int
  job_template_project :: int
  job_template_job_type :: perm_type
  job_template_active :: bool

record job =
  job_pk :: int
  job_status :: string

record job_host_summary =
  job_host_summary_pk :: int

record job_event =
  job_event_pk :: int

record store =
  User_objects :: "user list"
  Organization_objects :: "organization list"
  Team_objects :: "team list"
  Inventory_objects :: "inventory list"
  Host_objects :: "host list"
  Group_objects :: "group list"
  Credential_objects :: "credential list"
  Permission_objects :: "permission list"
  Project_objects :: "project list"
  JobTemplate_objects :: "job_template list"
  Job_objects :: "job list"
  JobHostSummary_objects :: "job_host_summary list"
  JobEvent_objects :: "job_event list"

text \<open>
  What the license reader and the process give to \<open>HostAccess.can_add\<close>: the dictionary
  \<open>LicenseReader().from_file()\<close> (its integer entries) and \<open>sys.argv\<close>.
\<close>

record environment =
  validation_info :: "(string \<times> int) list"
  argv :: "string list"

subsection \<open>Payloads, arguments and errors\<close>

text \<open>
  A payload (\<open>data\<close>) is a Python dictionary, or \<open>None\<close>. Its values are integers
  (primary keys), strings, permission-type constants or \<open>None\<close>.
\<close>

datatype pval = PNone | PInt int | PStr string | PType perm_type

type_synonym payload = "(string \<times> pval) list"

datatype error =
  PermissionDenied string
| ParseError
| DoesNotExist
| ValueError
| KeyError string
| NameError string
| FieldError
| AttributeError
| TypeError
| RecursionError

text \<open>\<open>k in data\<close>, \<open>data.get(k, None)\<close> and \<open>data[k]\<close>.\<close>

definition has_key :: "payload \<Rightarrow> string \<Rightarrow> bool" where
  "has_key data k = (map_of data k \<noteq> None)"

definition dict_get :: "payload \<Rightarrow> string \<Rightarrow> pval" where
  "dict_get data k = (case map_of data k of None \<Rightarrow> PNone | Some v \<Rightarrow> v)"

definition dict_item :: "payload \<Rightarrow> string \<Rightarrow> error + pval" where
  "dict_item data k = (case map_of data k of None \<Rightarrow> Inl (KeyError k) | Some v \<Rightarrow> Inr v)"

text \<open>Truth value of a payload: \<open>None\<close> and the empty dictionary are false.\<close>

definition truthy :: "payload option \<Rightarrow> bool" where
  "truthy data = (case data of None \<Rightarrow> False | Some d \<Rightarrow> d \<noteq> [])"

text \<open>The entries of a payload; \<open>None\<close> has none (it is only read where \<open>data\<close> is true).\<close>

definition entries :: "payload option \<Rightarrow> payload" where
  "entries data = (case data of None \<Rightarrow> [] | Some d \<Rightarrow> d)"

text \<open>
  Python's \<open>int(s)\<close> on a string, as Django applies it to the value of a primary key:
  blanks around the numeral are dropped, one sign may stand before the digits, and
  anything else is no integer.
\<close>

definition is_space :: "char \<Rightarrow> bool" where
  "is_space c =
     (c = CHR '' '' \<or> c = CHR 0x09 \<or> c = CHR 0x0A \<or> c = CHR 0x0B \<or> c = CHR 0x0C
      \<or> c = CHR 0x0D)"

fun position :: "'a \<Rightarrow> 'a list \<Rightarrow> nat option" where
  "position x [] = None"
| "position x (y # ys) = (if x = y then Some 0 else map_option Suc (position x ys))"

definition digit_value :: "char \<Rightarrow> nat option" where
  "digit_value c = position c ''0123456789''"

fun digits_value :: "string \<Rightarrow> nat \<Rightarrow> nat option" where
  "digits_value [] acc = Some acc"
| "digits_value (c # cs) acc =
     (case digit_value c of None \<Rightarrow> None | Some v \<Rightarrow> digits_value cs (10 * acc + v))"

definition py_int :: "string \<Rightarrow> int option" where
  "py_int s =
     (let t = rev (dropWhile is_space (rev (dropWhile is_space s))) in
      case t of
        [] \<Rightarrow> None
      | c # cs \<Rightarrow>
          if c = CHR ''-'' then
            (if cs = [] then None else map_option (\<lambda>n. - int n) (digits_value cs 0))
          else if c = CHR ''+'' then
            (if cs = [] then None else map_option int (digits_value cs 0))
          else map_option int (digits_value t 0))"

text \<open>
  \<open>Model.objects.get(pk=v)\<close>: the row with that key, or \<open>DoesNotExist\<close>. A key given as
  a string is converted with \<open>int\<close>; a string that is no integer is a \<open>ValueError\<close>, and so
  is a permission-type constant, which is a word. \<open>get_object_or_400\<close> turns
  \<open>DoesNotExist\<close> into a parse error (a 400 response).
\<close>

definition objects_get :: "('a \<Rightarrow> int) \<Rightarrow> 'a list \<Rightarrow> pval \<Rightarrow> error + 'a" where
  "objects_get pk_of rows v =
     (case v of
        PInt i \<Rightarrow> (case find (\<lambda>r. pk_of r = i) rows of
                     None \<Rightarrow> Inl DoesNotExist | Some r \<Rightarrow> Inr r)
      | PStr s \<Rightarrow>
          (case py_int s of
             None \<Rightarrow> Inl ValueError
           | Some i \<Rightarrow> (case find (\<lambda>r. pk_of r = i) rows of
                          None \<Rightarrow> Inl DoesNotExist | Some r \<Rightarrow> Inr r))
      | PNone \<Rightarrow> Inl DoesNotExist
      | PType t \<Rightarrow> Inl ValueError)"

definition get_object_or_400 :: "('a \<Rightarrow> int) \<Rightarrow> 'a list \<Rightarrow> pval \<Rightarrow> error + 'a" where
  "get_object_or_400 pk_of rows v =
     (case objects_get pk_of rows v of
        Inl DoesNotExist \<Rightarrow> Inl ParseError
      | Inl e \<Rightarrow> Inl e
      | Inr r \<Rightarrow> Inr r)"

text \<open>Sequencing of calls that may raise, and Python's short-circuit \<open>or\<close> / \<open>and\<close>.\<close>

definition and_then :: "error + 'a \<Rightarrow> ('a \<Rightarrow> error + 'b) \<Rightarrow> error + 'b" where
  "and_then m f = (case m of Inl e \<Rightarrow> Inl e | Inr x \<Rightarrow> f x)"

definition py_or :: "error + bool \<Rightarrow> error + bool \<Rightarrow> error + bool" where
  "py_or a b = (case a of Inl e \<Rightarrow> Inl e | Inr True \<Rightarrow> Inr True | Inr False \<Rightarrow> b)"

definition py_and :: "error + bool \<Rightarrow> error + bool \<Rightarrow> error + bool" where
  "py_and a b = (case a of Inl e \<Rightarrow> Inl e | Inr False \<Rightarrow> Inr False | Inr True \<Rightarrow> b)"

subsection \<open>Reverse accessors of the relations\<close>

definition user_organizations :: "store \<Rightarrow> int \<Rightarrow> organization list" where
  "user_organizations st k =
     filter (\<lambda>org. k \<in> set (organization_users org)) (Organization_objects st)"

definition admin_of_organizations :: "store \<Rightarrow> int \<Rightarrow> organization list" where
  "admin_of_organizations st k =
     filter (\<lambda>org. k \<in> set (organization_admins org)) (Organization_objects st)"

definition user_teams :: "store \<Rightarrow> int \<Rightarrow> team list" where
  "user_teams st k = filter (\<lambda>t. k \<in> set (team_users t)) (Team_objects st)"

definition project_organizations :: "store \<Rightarrow> int \<Rightarrow> organization list" where
  "project_organizations st k =
     filter (\<lambda>org. k \<in> set (organization_projects org)) (Organization_objects st)"

definition project_teams :: "store \<Rightarrow> int \<Rightarrow> team list" where
  "project_teams st k = filter (\<lambda>t. k \<in> set (team_projects t)) (Team_objects st)"

text \<open>
  Following a foreign key to the row it names (\<open>obj.inventory\<close>, \<open>obj.team\<close>,
  \<open>team.organization\<close>): Django raises \<open>DoesNotExist\<close> when the row is missing.
\<close>

definition organization_of :: "store \<Rightarrow> int \<Rightarrow> error + organization" where
  "organization_of st k = objects_get organization_pk (Organization_objects st) (PInt k)"

definition team_of :: "store \<Rightarrow> int \<Rightarrow> error + team" where
  "team_of st k = objects_get team_pk (Team_objects st) (PInt k)"

definition inventory_of :: "store \<Rightarrow> int \<Rightarrow> error + inventory" where
  "inventory_of st k = objects_get inventory_pk (Inventory_objects st) (PInt k)"

section \<open>UserAccess\<close>

definition UserAccess_get_queryset :: "store \<Rightarrow> user \<Rightarrow> user list" where
  "UserAccess_get_queryset st u =
     (let qs = filter is_active (User_objects st) in
      if is_superuser u then qs
      else filter (\<lambda>x.
             user_pk x = user_pk u
           \<or> list_ex (\<lambda>org. organization_pk org \<in>
                 set (map organization_pk (admin_of_organizations st (user_pk u))))
                 (user_organizations st (user_pk x))
           \<or> list_ex (\<lambda>t. team_pk t \<in> set (map team_pk (user_teams st (user_pk u))))
                 (user_teams st (user_pk x))) qs)"

definition UserAccess_can_admin :: "store \<Rightarrow> user \<Rightarrow> user \<Rightarrow> payload option \<Rightarrow> bool" where
  "UserAccess_can_admin st u obj data =
     (if is_superuser u then True
      else length (filter (\<lambda>org. user_pk u \<in> set (organization_admins org))
                     (user_organizations st (user_pk obj))) \<noteq> 0)"

definition UserAccess_can_change :: "store \<Rightarrow> user \<Rightarrow> user \<Rightarrow> payload option \<Rightarrow> bool" where
  "UserAccess_can_change st u obj data =
     (user_pk u = user_pk obj \<or> UserAccess_can_admin st u obj data)"

definition UserAccess_can_read :: "store \<Rightarrow> user \<Rightarrow> user \<Rightarrow> bool" where
  "UserAccess_can_read st u obj =
     (let matching_teams =
            length (filter (\<lambda>t. user_pk u \<in> set (team_users t)) (user_teams st (user_pk u)))
      in matching_teams \<noteq> 0 \<or> UserAccess_can_change st u obj None)"

definition UserAccess_can_add :: "store \<Rightarrow> user \<Rightarrow> payload option \<Rightarrow> bool" where
  "UserAccess_can_add st u data =
     (is_superuser u \<or> length (admin_of_organizations st (user_pk u)) \<noteq> 0)"

definition UserAccess_can_delete :: "store \<Rightarrow> user \<Rightarrow> user \<Rightarrow> bool" where
  "UserAccess_can_delete st u obj =
     (if user_pk obj = user_pk u then False
      else
        let super_users = filter (\<lambda>x. is_active x \<and> is_superuser x) (User_objects st) in
        if is_superuser obj \<and> length super_users = 1 then False
        else (is_superuser u
            \<or> length (filter (\<lambda>org. user_pk u \<in> set (organization_admins org))
                        (user_organizations st (user_pk obj))) \<noteq> 0))"

section \<open>OrganizationAccess\<close>

definition OrganizationAccess_get_queryset :: "store \<Rightarrow> user \<Rightarrow> organization list" where
  "OrganizationAccess_get_queryset st u =
     (let qs = Organization_objects st in
      if is_superuser u then qs
      else filter (\<lambda>org. user_pk u \<in> set (organization_admins org)
                       \<or> user_pk u \<in> set (organization_users org)) qs)"

definition OrganizationAccess_can_change ::
  "user \<Rightarrow> organization \<Rightarrow> payload option \<Rightarrow> bool" where
  "OrganizationAccess_can_change u obj data =
     (is_superuser u \<or> user_pk u \<in> set (organization_admins obj))"

definition OrganizationAccess_can_read :: "user \<Rightarrow> organization \<Rightarrow> bool" where
  "OrganizationAccess_can_read u obj =
     (OrganizationAccess_can_change u obj None \<or> user_pk u \<in> set (organization_users obj))"

definition OrganizationAccess_can_delete :: "user \<Rightarrow> organization \<Rightarrow> bool" where
  "OrganizationAccess_can_delete u obj = OrganizationAccess_can_change u obj None"

section \<open>The dispatcher's interface, as the access classes call it\<close>

datatype model_class =
  User | Organization | Inventory | Host | Group | Credential | Team | Project
| Permission | JobTemplate | Job | JobHostSummary | JobEvent

datatype model_instance =
  User_instance user
| Organization_instance organization
| Inventory_instance inventory
| Host_instance host
| Group_instance group
| Credential_instance credential
| Team_instance team
| Project_instance project
| Permission_instance permission
| JobTemplate_instance job_template
| Job_instance job
| JobHostSummary_instance job_host_summary
| JobEvent_instance job_event

text \<open>\<open>type(obj)\<close> and \<open>obj.pk\<close> of an instance.\<close>

fun type_of :: "model_instance \<Rightarrow> model_class" where
  "type_of (User_instance x) = User"
| "type_of (Organization_instance x) = Organization"
| "type_of (Inventory_instance x) = Inventory"
| "type_of (Host_instance x) = Host"
| "type_of (Group_instance x) = Group"
| "type_of (Credential_instance x) = Credential"
| "type_of (Team_instance x) = Team"
| "type_of (Project_instance x) = Project"
| "type_of (Permission_instance x) = Permission"
| "type_of (JobTemplate_instance x) = JobTemplate"
| "type_of (Job_instance x) = Job"
| "type_of (JobHostSummary_instance x) = JobHostSummary"
| "type_of (JobEvent_instance x) = JobEvent"

fun instance_pk :: "model_instance \<Rightarrow> int" where
  "instance_pk (User_instance x) = user_pk x"
| "instance_pk (Organization_instance x) = organization_pk x"
| "instance_pk (Inventory_instance x) = inventory_pk x"
| "instance_pk (Host_instance x) = host_pk x"
| "instance_pk (Group_instance x) = group_pk x"
| "instance_pk (Credential_instance x) = credential_pk x"
| "instance_pk (Team_instance x) = team_pk x"
| "instance_pk (Project_instance x) = project_pk x"
| "instance_pk (Permission_instance x) = permission_pk x"
| "instance_pk (JobTemplate_instance x) = job_template_pk x"
| "instance_pk (Job_instance x) = job_pk x"
| "instance_pk (JobHostSummary_instance x) = job_host_summary_pk x"
| "instance_pk (JobEvent_instance x) = job_event_pk x"

text \<open>
  The positional arguments (\<open>*args\<close>) that \<open>check_user_access\<close> hands to a \<open>can_\<close> method:
  a model instance, \<open>None\<close>, a payload, a relationship name or a flag.
\<close>

datatype arg = Obj model_instance | NoneArg | Data payload | Str string | Flag bool

text \<open>
  \<open>self.user.can_access(model_class, action, *args)\<close> and
  \<open>self.user.get_queryset(model_class)\<close>: the actor's way back into the dispatcher. The
  access classes take them as parameters; the dispatcher at the end of this theory passes
  itself.
\<close>

type_synonym can_access = "model_class \<Rightarrow> string \<Rightarrow> arg list \<Rightarrow> error + bool"
type_synonym user_queryset = "model_class \<Rightarrow> error + model_instance list"

section \<open>InventoryAccess\<close>

text \<open>
  \<open>get_queryset(allowed)\<close>. A single \<open>filter\<close> call with two conditions on \<open>permissions\<close>
  asks for one permission row that satisfies both.
\<close>

definition InventoryAccess_get_queryset ::
  "store \<Rightarrow> user \<Rightarrow> perm_type list option \<Rightarrow> inventory list" where
  "InventoryAccess_get_queryset st u allowed0 =
     (let allowed = (case allowed0 of None \<Rightarrow> PERMISSION_TYPES_ALLOWING_INVENTORY_READ
                     | Some a \<Rightarrow> if a = [] then PERMISSION_TYPES_ALLOWING_INVENTORY_READ else a);
          qs = filter inventory_active (Inventory_objects st) in
      if is_superuser u then qs
      else
        let admin_of = (\<lambda>iv. list_ex (\<lambda>org. organization_pk org = inventory_organization iv
                                 \<and> user_pk u \<in> set (organization_admins org))
                          (Organization_objects st));
            has_user_perms = (\<lambda>iv. list_ex (\<lambda>p. permission_inventory p = Some (inventory_pk iv)
                                 \<and> permission_user p = Some (user_pk u)
                                 \<and> permission_type p \<in> set allowed)
                          (Permission_objects st));
            has_team_perms = (\<lambda>iv. list_ex (\<lambda>p. permission_inventory p = Some (inventory_pk iv)
                                 \<and> list_ex (\<lambda>t. permission_team p = Some (team_pk t)
                                        \<and> user_pk u \<in> set (team_users t)) (Team_objects st)
                                 \<and> permission_type p \<in> set allowed)
                          (Permission_objects st))
        in filter (\<lambda>iv. admin_of iv \<or> has_user_perms iv \<or> has_team_perms iv) qs)"

definition has_permission_types ::
  "store \<Rightarrow> user \<Rightarrow> inventory option \<Rightarrow> perm_type list \<Rightarrow> bool" where
  "has_permission_types st u obj allowed =
     (case obj of
        None \<Rightarrow> False
      | Some iv \<Rightarrow>
          length (filter (\<lambda>x. inventory_pk x = inventory_pk iv)
                    (InventoryAccess_get_queryset st u (Some allowed))) \<noteq> 0)"

definition InventoryAccess_can_read :: "store \<Rightarrow> user \<Rightarrow> inventory option \<Rightarrow> bool" where
  "InventoryAccess_can_read st u obj =
     has_permission_types st u obj PERMISSION_TYPES_ALLOWING_INVENTORY_READ"

definition InventoryAccess_can_add ::
  "can_access \<Rightarrow> store \<Rightarrow> user \<Rightarrow> payload option \<Rightarrow> error + bool" where
  "InventoryAccess_can_add can_access st u data =
     (if \<not> truthy data then
        Inr (is_superuser u \<or> length (admin_of_organizations st (user_pk u)) \<noteq> 0)
      else if is_superuser u then Inr True
      else
        and_then (get_object_or_400 organization_pk (Organization_objects st)
                    (dict_get (entries data) ''organization''))
          (\<lambda>org. and_then
             (can_access Organization ''change'' [Obj (Organization_instance org), NoneArg])
             (\<lambda>ok. if ok then Inr True else Inr False)))"

definition InventoryAccess_can_change ::
  "can_access \<Rightarrow> store \<Rightarrow> user \<Rightarrow> inventory option \<Rightarrow> payload option \<Rightarrow> error + bool" where
  "InventoryAccess_can_change can_access st u obj data =
     (if truthy data \<and> has_key (entries data) ''organization'' then
        and_then (InventoryAccess_can_add can_access st u data)
          (\<lambda>ok. if \<not> ok then Inr False
                 else Inr (has_permission_types st u obj
                             PERMISSION_TYPES_ALLOWING_INVENTORY_WRITE))
      else Inr (has_permission_types st u obj PERMISSION_TYPES_ALLOWING_INVENTORY_WRITE))"

definition InventoryAccess_can_admin ::
  "can_access \<Rightarrow> store \<Rightarrow> user \<Rightarrow> inventory option \<Rightarrow> payload option \<Rightarrow> error + bool" where
  "InventoryAccess_can_admin can_access st u obj data =
     (if truthy data \<and> has_key (entries data) ''organization'' then
        and_then (InventoryAccess_can_add can_access st u data)
          (\<lambda>ok. if \<not> ok then Inr False
                 else Inr (has_permission_types st u obj
                             PERMISSION_TYPES_ALLOWING_INVENTORY_ADMIN))
      else Inr (has_permission_types st u obj PERMISSION_TYPES_ALLOWING_INVENTORY_ADMIN))"

definition InventoryAccess_can_delete ::
  "can_access \<Rightarrow> store \<Rightarrow> user \<Rightarrow> inventory option \<Rightarrow> error + bool" where
  "InventoryAccess_can_delete can_access st u obj =
     InventoryAccess_can_admin can_access st u obj None"

section \<open>HostAccess\<close>

text \<open>\<open>"%s" % n\<close> for an integer \<open>n\<close>: its decimal digits.\<close>

function str_nat :: "nat \<Rightarrow> string" where
  "str_nat n =
     (if n < 10 then [''0123456789'' ! n]
      else str_nat (n div 10) @ [''0123456789'' ! (n mod 10)])"
  by pat_completeness auto
termination
  by (relation "measure id") auto

definition str_int :: "int \<Rightarrow> string" where
  "str_int i = (if i < 0 then ''-'' @ str_nat (nat (- i)) else str_nat (nat i))"

text \<open>\<open>info.get(k, default)\<close> and \<open>info[k] = v\<close> on the license dictionary.\<close>

definition info_get :: "(string \<times> int) list \<Rightarrow> string \<Rightarrow> int \<Rightarrow> int" where
  "info_get info k dflt = (case map_of info k of None \<Rightarrow> dflt | Some v \<Rightarrow> v)"

definition info_set :: "(string \<times> int) list \<Rightarrow> string \<Rightarrow> int \<Rightarrow> (string \<times> int) list" where
  "info_set info k v = (k, v) # filter (\<lambda>kv. fst kv \<noteq> k) info"

definition HostAccess_get_queryset :: "user_queryset \<Rightarrow> store \<Rightarrow> user \<Rightarrow> error + host list" where
  "HostAccess_get_queryset get_queryset st u =
     (let qs = filter host_active (Host_objects st) in
      and_then (get_queryset Inventory)
        (\<lambda>inventories_qs.
           Inr (filter (\<lambda>h. host_inventory h \<in> set (map instance_pk inventories_qs)) qs)))"

definition HostAccess_can_read ::
  "can_access \<Rightarrow> store \<Rightarrow> user \<Rightarrow> host option \<Rightarrow> error + bool" where
  "HostAccess_can_read can_access st u obj =
     (case obj of
        None \<Rightarrow> Inr False
      | Some h \<Rightarrow>
          and_then (inventory_of st (host_inventory h))
            (\<lambda>iv. can_access Inventory ''read'' [Obj (Inventory_instance iv)]))"

definition HostAccess_can_add ::
  "can_access \<Rightarrow> store \<Rightarrow> environment \<Rightarrow> user \<Rightarrow> payload option \<Rightarrow> error + bool" where
  "HostAccess_can_add can_access st env u data =
     (if \<not> truthy data \<or> \<not> has_key (entries data) ''inventory'' then Inr False
      else
        and_then (get_object_or_400 inventory_pk (Inventory_objects st)
                    (dict_get (entries data) ''inventory''))
          (\<lambda>iv. and_then
             (can_access Inventory ''change'' [Obj (Inventory_instance iv), NoneArg])
             (\<lambda>ok.
                if \<not> ok then Inr False
                else
                  let info0 = validation_info env;
                      info = (if ''test'' \<in> set (argv env)
                              then info_set info0 ''free_instances'' 99999999 else info0)
                  in if info_get info ''free_instances'' 0 > 0 then Inr True
                     else
                       let instances = info_get info ''available_instances'' 0 in
                       Inl (PermissionDenied
                              (''license range of '' @ str_int instances
                                 @ '' instances has been exceed'')))))"

definition HostAccess_can_change ::
  "can_access \<Rightarrow> store \<Rightarrow> user \<Rightarrow> host option \<Rightarrow> payload option \<Rightarrow> error + bool" where
  "HostAccess_can_change can_access st u obj data =
     (case obj of
        None \<Rightarrow> Inr False
      | Some h \<Rightarrow>
          if truthy data \<and> PInt (host_inventory h) \<noteq> dict_get (entries data) ''inventory''
          then Inl (PermissionDenied ''Unable to change inventory on a host'')
          else
            and_then (inventory_of st (host_inventory h))
              (\<lambda>iv. can_access Inventory ''change'' [Obj (Inventory_instance iv), NoneArg]))"

section \<open>BaseAccess: the defaults the classes inherit\<close>

text \<open>
  The defaults for \<open>can_read\<close>, \<open>can_add\<close>, \<open>can_change\<close> and \<open>can_delete\<close> return
  \<open>self.user.is_superuser\<close>. \<open>can_attach\<close> and \<open>can_unattach\<close> call \<open>self.can_change(obj,
  None)\<close>, which is the method of the class of the instance; below they take its result
  as their first parameter.
\<close>

definition BaseAccess_can_attach ::
  "error + bool \<Rightarrow> can_access \<Rightarrow> model_instance \<Rightarrow> bool \<Rightarrow> error + bool" where
  "BaseAccess_can_attach self_can_change can_access sub_obj skip_sub_obj_read_check =
     (if skip_sub_obj_read_check then self_can_change
      else py_and self_can_change (can_access (type_of sub_obj) ''read'' [Obj sub_obj]))"

definition BaseAccess_can_unattach :: "error + bool \<Rightarrow> error + bool" where
  "BaseAccess_can_unattach self_can_change = self_can_change"

section \<open>GroupAccess\<close>

text \<open>
  Modelled from the spec: \<open>Group.all_parents\<close> and \<open>Group.all_children\<close> are properties of
  the Group model, which is not in access.py. The spec calls them the parent/child
  closure (ancestors and descendants) of a group: here the groups of the store reachable
  along one or more parent links, upwards and downwards. \<open>attach_group\<close> is what a
  successful attach stores: the parent becomes one of the child's parents.
\<close>

definition parent_links :: "store \<Rightarrow> (int \<times> int) list" where
  "parent_links st =
     concat (map (\<lambda>g. map (\<lambda>p. (p, group_pk g)) (group_parents g)) (Group_objects st))"

definition all_parents :: "store \<Rightarrow> group \<Rightarrow> int list" where
  "all_parents st g =
     map group_pk
       (filter (\<lambda>p. (group_pk p, group_pk g) \<in> (set (parent_links st))\<^sup>+) (Group_objects st))"

definition all_children :: "store \<Rightarrow> group \<Rightarrow> int list" where
  "all_children st g =
     map group_pk
       (filter (\<lambda>c. (group_pk g, group_pk c) \<in> (set (parent_links st))\<^sup>+) (Group_objects st))"

definition attach_group :: "store \<Rightarrow> group \<Rightarrow> group \<Rightarrow> store" where
  "attach_group st parent child =
     st\<lparr>Group_objects :=
          map (\<lambda>g. if group_pk g = group_pk child
                   then g\<lparr>group_parents := group_pk parent # group_parents g\<rparr> else g)
            (Group_objects st)\<rparr>"

definition GroupAccess_get_queryset :: "user_queryset \<Rightarrow> store \<Rightarrow> user \<Rightarrow> error + group list" where
  "GroupAccess_get_queryset get_queryset st u =
     (let qs = filter group_active (Group_objects st) in
      and_then (get_queryset Inventory)
        (\<lambda>inventories_qs.
           Inr (filter (\<lambda>g. group_inventory g \<in> set (map instance_pk inventories_qs)) qs)))"

definition GroupAccess_can_read ::
  "can_access \<Rightarrow> store \<Rightarrow> user \<Rightarrow> group option \<Rightarrow> error + bool" where
  "GroupAccess_can_read can_access st u obj =
     (case obj of
        None \<Rightarrow> Inr False
      | Some g \<Rightarrow>
          and_then (inventory_of st (group_inventory g))
            (\<lambda>iv. can_access Inventory ''read'' [Obj (Inventory_instance iv)]))"

definition GroupAccess_can_add ::
  "can_access \<Rightarrow> store \<Rightarrow> user \<Rightarrow> payload option \<Rightarrow> error + bool" where
  "GroupAccess_can_add can_access st u data =
     (if \<not> truthy data \<or> \<not> has_key (entries data) ''inventory'' then Inr False
      else
        and_then (get_object_or_400 inventory_pk (Inventory_objects st)
                    (dict_get (entries data) ''inventory''))
          (\<lambda>iv. can_access Inventory ''change'' [Obj (Inventory_instance iv), NoneArg]))"

definition GroupAccess_can_change ::
  "can_access \<Rightarrow> store \<Rightarrow> user \<Rightarrow> group option \<Rightarrow> payload option \<Rightarrow> error + bool" where
  "GroupAccess_can_change can_access st u obj data =
     (case obj of
        None \<Rightarrow> Inr False
      | Some g \<Rightarrow>
          and_then (inventory_of st (group_inventory g))
            (\<lambda>iv. can_access Inventory ''change'' [Obj (Inventory_instance iv), NoneArg]))"

definition GroupAccess_can_attach ::
  "can_access \<Rightarrow> store \<Rightarrow> user \<Rightarrow> group \<Rightarrow> model_instance \<Rightarrow> string \<Rightarrow> payload option
     \<Rightarrow> bool \<Rightarrow> error + bool" where
  "GroupAccess_can_attach can_access st u obj sub_obj relationship data skip_sub_obj_read_check =
     and_then
       (BaseAccess_can_attach (GroupAccess_can_change can_access st u (Some obj) None)
          can_access sub_obj skip_sub_obj_read_check)
       (\<lambda>ok.
          if \<not> ok then Inr False
          else
            (case sub_obj of
               Group_instance sub \<Rightarrow>
                 let parent_pks = set (all_parents st obj) \<union> {group_pk obj};
                     child_pks = set (all_children st sub) \<union> {group_pk sub}
                 in if parent_pks \<inter> child_pks \<noteq> {} then Inr False else Inr True
             | _ \<Rightarrow> Inr True))"

section \<open>CredentialAccess\<close>

definition CredentialAccess_get_queryset :: "store \<Rightarrow> user \<Rightarrow> credential list" where
  "CredentialAccess_get_queryset st u =
     (let qs = filter credential_active (Credential_objects st) in
      if is_superuser u then qs
      else
        let orgs_as_admin = admin_of_organizations st (user_pk u) in
        filter (\<lambda>c.
            credential_user c = Some (user_pk u)
          \<or> list_ex (\<lambda>org. credential_user c \<in> set (map Some (organization_users org)))
               orgs_as_admin
          \<or> list_ex (\<lambda>org. credential_user c \<in> set (map Some (organization_admins org)))
               orgs_as_admin
          \<or> list_ex (\<lambda>t. credential_team c = Some (team_pk t)
                        \<and> team_organization t \<in> set (map organization_pk orgs_as_admin))
               (Team_objects st)
          \<or> list_ex (\<lambda>t. credential_team c = Some (team_pk t)
                        \<and> user_pk u \<in> set (team_users t))
               (Team_objects st)) qs)"

definition CredentialAccess_can_change ::
  "store \<Rightarrow> user \<Rightarrow> credential \<Rightarrow> payload option \<Rightarrow> error + bool" where
  "CredentialAccess_can_change st u obj data =
     (if is_superuser u then Inr True
      else if credential_user obj = Some (user_pk u) then Inr True
      else if (case credential_user obj of
                 None \<Rightarrow> False
               | Some k \<Rightarrow> length (filter (\<lambda>org. user_pk u \<in> set (organization_admins org))
                                     (user_organizations st k)) \<noteq> 0)
      then Inr True
      else
        (case credential_team obj of
           None \<Rightarrow> Inr False
         | Some tk \<Rightarrow>
             and_then (team_of st tk)
               (\<lambda>t. and_then (organization_of st (team_organization t))
                  (\<lambda>org. if user_pk u \<in> set (organization_admins org)
                          then Inr True else Inr False))))"

definition CredentialAccess_can_read ::
  "store \<Rightarrow> user \<Rightarrow> credential option \<Rightarrow> error + bool" where
  "CredentialAccess_can_read st u obj =
     (case obj of None \<Rightarrow> Inr False | Some c \<Rightarrow> CredentialAccess_can_change st u c None)"

definition CredentialAccess_can_add ::
  "can_access \<Rightarrow> store \<Rightarrow> user \<Rightarrow> payload option \<Rightarrow> error + bool" where
  "CredentialAccess_can_add can_access st u data =
     (if is_superuser u then Inr True
      else
        (case data of
           None \<Rightarrow> Inl TypeError
         | Some d \<Rightarrow>
             if has_key d ''user'' then
               and_then (objects_get user_pk (User_objects st) (dict_get d ''user''))
                 (\<lambda>user_obj. can_access User ''change'' [Obj (User_instance user_obj), NoneArg])
             else if has_key d ''team'' then
               and_then (objects_get team_pk (Team_objects st) (dict_get d ''team''))
                 (\<lambda>team_obj. can_access Team ''change'' [Obj (Team_instance team_obj), NoneArg])
             else Inr False))"

definition CredentialAccess_can_delete :: "store \<Rightarrow> user \<Rightarrow> credential \<Rightarrow> error + bool" where
  "CredentialAccess_can_delete st u obj =
     (if credential_user obj = None \<and> credential_team obj = None then Inr True
      else CredentialAccess_can_change st u obj None)"

section \<open>TeamAccess\<close>

definition TeamAccess_get_queryset :: "store \<Rightarrow> user \<Rightarrow> team list" where
  "TeamAccess_get_queryset st u =
     (let qs = filter team_active (Team_objects st) in
      if is_superuser u then qs
      else filter (\<lambda>t.
             list_ex (\<lambda>org. organization_pk org = team_organization t
                          \<and> user_pk u \<in> set (organization_admins org))
               (Organization_objects st)
           \<or> user_pk u \<in> set (team_users t)) qs)"

definition TeamAccess_can_add :: "store \<Rightarrow> user \<Rightarrow> payload option \<Rightarrow> bool" where
  "TeamAccess_can_add st u data =
     (if is_superuser u then True
      else if length (filter (\<lambda>org. user_pk u \<in> set (organization_admins org))
                        (Organization_objects st)) \<noteq> 0 then True
      else False)"

definition TeamAccess_can_change ::
  "store \<Rightarrow> user \<Rightarrow> team \<Rightarrow> payload option \<Rightarrow> error + bool" where
  "TeamAccess_can_change st u obj data =
     (if is_superuser u then Inr True
      else and_then (organization_of st (team_organization obj))
             (\<lambda>org. if user_pk u \<in> set (organization_admins org) then Inr True
                     else Inr False))"

definition TeamAccess_can_read :: "store \<Rightarrow> user \<Rightarrow> team \<Rightarrow> error + bool" where
  "TeamAccess_can_read st u obj =
     and_then (TeamAccess_can_change st u obj None)
       (\<lambda>ok. if ok then Inr True
              else if length (filter (\<lambda>k. k = user_pk u) (team_users obj)) \<noteq> 0 then Inr True
              else Inr False)"

definition TeamAccess_can_delete :: "store \<Rightarrow> user \<Rightarrow> team \<Rightarrow> error + bool" where
  "TeamAccess_can_delete st u obj = TeamAccess_can_change st u obj None"

section \<open>ProjectAccess\<close>

definition ProjectAccess_get_queryset :: "store \<Rightarrow> user \<Rightarrow> project list" where
  "ProjectAccess_get_queryset st u =
     (let base = Project_objects st in
      if is_superuser u then base
      else
        let my_teams = filter (\<lambda>t. user_pk u \<in> set (team_users t)) (Team_objects st);
            my_orgs = filter (\<lambda>org. user_pk u \<in> set (organization_admins org))
                        (Organization_objects st)
        in filter (\<lambda>p.
               list_ex (\<lambda>t. team_pk t \<in> set (map team_pk my_teams))
                 (project_teams st (project_pk p))
             \<or> list_ex (\<lambda>org. organization_pk org \<in> set (map organization_pk my_orgs))
                 (project_organizations st (project_pk p))) base)"

text \<open>
  The loop of \<open>can_change\<close> reads the name \<open>project\<close>, which the method does not bind:
  its first iteration raises \<open>NameError\<close>. With no organization to iterate over the
  method returns \<open>False\<close>.
\<close>

definition ProjectAccess_can_change ::
  "store \<Rightarrow> user \<Rightarrow> project \<Rightarrow> payload option \<Rightarrow> error + bool" where
  "ProjectAccess_can_change st u obj data =
     (if is_superuser u then Inr True
      else if project_created_by obj = Some (user_pk u) then Inr True
      else
        let organizations =
              filter (\<lambda>org. user_pk u \<in> set (organization_admins org)
                          \<and> project_pk obj \<in> set (organization_projects org))
                (Organization_objects st)
        in (case organizations of
              [] \<Rightarrow> Inr False
            | org # rest \<Rightarrow> Inl (NameError ''project'')))"

definition ProjectAccess_can_read :: "store \<Rightarrow> user \<Rightarrow> project \<Rightarrow> error + bool" where
  "ProjectAccess_can_read st u obj =
     and_then (ProjectAccess_can_change st u obj None)
       (\<lambda>ok. if ok then Inr True else Inr False)"

definition ProjectAccess_can_delete :: "store \<Rightarrow> user \<Rightarrow> project \<Rightarrow> error + bool" where
  "ProjectAccess_can_delete st u obj = ProjectAccess_can_change st u obj None"

section \<open>PermissionAccess\<close>

definition PermissionAccess_get_queryset :: "store \<Rightarrow> user \<Rightarrow> permission list" where
  "PermissionAccess_get_queryset st u = Permission_objects st"

text \<open>
  The team branch of \<open>can_change\<close> filters the admins of the team's organization, which
  are users, by a field named \<open>user\<close>. The user model has no such field, and Django
  raises \<open>FieldError\<close> when it builds that filter.
\<close>

definition PermissionAccess_can_change ::
  "store \<Rightarrow> user \<Rightarrow> permission \<Rightarrow> payload option \<Rightarrow> error + bool" where
  "PermissionAccess_can_change st u obj data =
     (if is_superuser u then Inr True
      else if (case permission_user obj of
                 None \<Rightarrow> False
               | Some k \<Rightarrow> length (filter (\<lambda>org. user_pk u \<in> set (organization_admins org))
                                     (user_organizations st k)) > 0)
      then Inr True
      else
        (case permission_team obj of
           None \<Rightarrow> Inr False
         | Some tk \<Rightarrow>
             and_then (team_of st tk)
               (\<lambda>t. and_then (organization_of st (team_organization t))
                  (\<lambda>org. Inl FieldError))))"

definition PermissionAccess_can_read :: "store \<Rightarrow> user \<Rightarrow> permission \<Rightarrow> error + bool" where
  "PermissionAccess_can_read st u obj =
     (if permission_user obj = Some (user_pk u) then Inr True
      else
        and_then
          (case permission_team obj of
             None \<Rightarrow> Inr False
           | Some tk \<Rightarrow>
               and_then (team_of st tk)
                 (\<lambda>t. Inr (length (filter (\<lambda>k. k = user_pk u) (team_users t)) > 0)))
          (\<lambda>on_team. if on_team then Inr True
                      else PermissionAccess_can_change st u obj None))"

definition PermissionAccess_can_delete :: "store \<Rightarrow> user \<Rightarrow> permission \<Rightarrow> error + bool" where
  "PermissionAccess_can_delete st u obj = PermissionAccess_can_change st u obj None"

section \<open>JobTemplateAccess\<close>

definition JobTemplateAccess_get_queryset :: "store \<Rightarrow> user \<Rightarrow> job_template list" where
  "JobTemplateAccess_get_queryset st u =
     (let qs = JobTemplate_objects st in
      if is_superuser u then qs
      else filter (\<lambda>jt.
             job_template_active jt
           \<and> (list_ex (\<lambda>org. user_pk u \<in> set (organization_admins org))
                 (project_organizations st (job_template_project jt))
              \<or> list_ex (\<lambda>t. user_pk u \<in> set (team_users t))
                 (project_teams st (job_template_project jt)))) qs)"

text \<open>
  The two loops of \<open>can_add\<close> over the permissions of the actor and of the actor's teams
  on the inventory and project; \<open>has_launch_permission\<close> is the local variable they set.
\<close>

fun launch_loop :: "pval \<Rightarrow> permission list \<Rightarrow> bool \<Rightarrow> bool" where
  "launch_loop job_type [] has_launch_permission = has_launch_permission"
| "launch_loop job_type (perm # perms) has_launch_permission =
     launch_loop job_type perms
       (if job_type = PType PERM_INVENTORY_CHECK then True
        else if job_type = PType PERM_INVENTORY_DEPLOY
                \<and> permission_type perm = PERM_INVENTORY_DEPLOY then True
        else has_launch_permission)"

definition has_launch_permission ::
  "store \<Rightarrow> user \<Rightarrow> inventory \<Rightarrow> project \<Rightarrow> pval \<Rightarrow> bool" where
  "has_launch_permission st u iv proj job_type =
     (let user_permissions =
            filter (\<lambda>p. permission_inventory p = Some (inventory_pk iv)
                      \<and> permission_project p = Some (project_pk proj)
                      \<and> permission_user p = Some (user_pk u)) (Permission_objects st);
          team_permissions =
            filter (\<lambda>p. permission_inventory p = Some (inventory_pk iv)
                      \<and> permission_project p = Some (project_pk proj)
                      \<and> list_ex (\<lambda>t. permission_team p = Some (team_pk t)
                                   \<and> user_pk u \<in> set (team_users t)) (Team_objects st))
              (Permission_objects st)
      in launch_loop job_type team_permissions
           (launch_loop job_type user_permissions False))"

text \<open>The check that the actor owns the credential named in the payload.\<close>

definition has_credential :: "store \<Rightarrow> user \<Rightarrow> credential \<Rightarrow> error + bool" where
  "has_credential st u cred =
     and_then
       (case credential_team cred of
          None \<Rightarrow> Inr False
        | Some tk \<Rightarrow>
            and_then (team_of st tk)
              (\<lambda>t. Inr (length (filter (\<lambda>k. k = user_pk u) (team_users t)) \<noteq> 0)))
       (\<lambda>by_team. Inr (by_team \<or> credential_user cred = Some (user_pk u)))"

definition JobTemplateAccess_can_add :: "store \<Rightarrow> user \<Rightarrow> payload option \<Rightarrow> error + bool" where
  "JobTemplateAccess_can_add st u data =
     (if is_superuser u then Inr True
      else if \<not> truthy data \<or> has_key (entries data) ''_method'' then Inr True
      else
        and_then (dict_item (entries data) ''project'') (\<lambda>project_key.
        and_then (objects_get project_pk (Project_objects st) project_key) (\<lambda>proj.
        and_then (dict_item (entries data) ''inventory'') (\<lambda>inventory_key.
        and_then (objects_get inventory_pk (Inventory_objects st) inventory_key) (\<lambda>iv.
          let admin_of_orgs =
                filter (\<lambda>org. user_pk u \<in> set (organization_admins org))
                  (project_organizations st (project_pk proj))
          in if length admin_of_orgs > 0 then Inr True
             else
               and_then (dict_item (entries data) ''job_type'') (\<lambda>job_type.
                 if \<not> has_launch_permission st u iv proj job_type then Inr False
                 else
                   and_then
                     (if has_key (entries data) ''credential'' then
                        and_then (objects_get credential_pk (Credential_objects st)
                                    (dict_get (entries data) ''credential''))
                          (\<lambda>cred. has_credential st u cred)
                      else Inr True)
                     (\<lambda>credential_ok.
                        if \<not> credential_ok then Inr False
                        else if length (filter (\<lambda>t. user_pk u \<in> set (team_users t))
                                          (project_teams st (project_pk proj))) \<noteq> 0
                        then Inr False
                        else Inr True)))))))"

definition JobTemplateAccess_can_read :: "store \<Rightarrow> user \<Rightarrow> job_template \<Rightarrow> error + bool" where
  "JobTemplateAccess_can_read st u obj =
     (let data = [(''inventory'', PInt (job_template_inventory obj)),
                  (''project'', PInt (job_template_project obj)),
                  (''job_type'', PType (job_template_job_type obj))]
      in JobTemplateAccess_can_add st u (Some data))"

definition JobTemplateAccess_can_change ::
  "user \<Rightarrow> job_template \<Rightarrow> payload option \<Rightarrow> bool" where
  "JobTemplateAccess_can_change u obj data = is_superuser u"

section \<open>JobAccess, JobHostSummaryAccess, JobEventAccess\<close>

definition JobAccess_get_queryset :: "store \<Rightarrow> user \<Rightarrow> job list" where
  "JobAccess_get_queryset st u = Job_objects st"

definition JobAccess_can_change :: "user \<Rightarrow> job \<Rightarrow> payload option \<Rightarrow> bool" where
  "JobAccess_can_change u obj data = (is_superuser u \<and> job_status obj = ''new'')"

definition JobAccess_can_start :: "user \<Rightarrow> job \<Rightarrow> bool" where
  "JobAccess_can_start u obj = False"

definition JobAccess_can_cancel :: "user \<Rightarrow> job \<Rightarrow> bool" where
  "JobAccess_can_cancel u obj = False"

definition JobHostSummaryAccess_get_queryset :: "store \<Rightarrow> user \<Rightarrow> job_host_summary list" where
  "JobHostSummaryAccess_get_queryset st u = JobHostSummary_objects st"

definition JobEventAccess_get_queryset :: "store \<Rightarrow> user \<Rightarrow> job_event list" where
  "JobEventAccess_get_queryset st u = JobEvent_objects st"

section \<open>The registry and the dispatcher\<close>

datatype access_class =
  UserAccess | OrganizationAccess | InventoryAccess | HostAccess | GroupAccess
| CredentialAccess | TeamAccess | ProjectAccess | PermissionAccess | JobTemplateAccess
| JobAccess | JobHostSummaryAccess | JobEventAccess

text \<open>
  Reading the arguments of a call. A method of an access class is written for instances of
  its own model. Called with \<open>None\<close>, it runs until the first field of the object that it
  reads and fails there with \<open>AttributeError\<close>, unless it has returned before:
  \<open>with_obj\<close> takes what the method does on \<open>None\<close> as a parameter, and \<open>short_circuit b\<close> is
  a method that returns \<open>True\<close> before that field when \<open>b\<close> holds. A call with an instance
  of another model is outside this model and is given \<open>AttributeError\<close>. A payload argument
  is a dictionary or \<open>None\<close>.
\<close>

fun as_User :: "model_instance \<Rightarrow> user option" where
  "as_User (User_instance x) = Some x"
| "as_User other = None"

fun as_Organization :: "model_instance \<Rightarrow> organization option" where
  "as_Organization (Organization_instance x) = Some x"
| "as_Organization other = None"

fun as_Inventory :: "model_instance \<Rightarrow> inventory option" where
  "as_Inventory (Inventory_instance x) = Some x"
| "as_Inventory other = None"

fun as_Host :: "model_instance \<Rightarrow> host option" where
  "as_Host (Host_instance x) = Some x"
| "as_Host other = None"

fun as_Group :: "model_instance \<Rightarrow> group option" where
  "as_Group (Group_instance x) = Some x"
| "as_Group other = None"

fun as_Credential :: "model_instance \<Rightarrow> credential option" where
  "as_Credential (Credential_instance x) = Some x"
| "as_Credential other = None"

fun as_Team :: "model_instance \<Rightarrow> team option" where
  "as_Team (Team_instance x) = Some x"
| "as_Team other = None"

fun as_Project :: "model_instance \<Rightarrow> project option" where
  "as_Project (Project_instance x) = Some x"
| "as_Project other = None"

fun as_Permission :: "model_instance \<Rightarrow> permission option" where
  "as_Permission (Permission_instance x) = Some x"
| "as_Permission other = None"

fun as_JobTemplate :: "model_instance \<Rightarrow> job_template option" where
  "as_JobTemplate (JobTemplate_instance x) = Some x"
| "as_JobTemplate other = None"

fun as_Job :: "model_instance \<Rightarrow> job option" where
  "as_Job (Job_instance x) = Some x"
| "as_Job other = None"

definition with_obj ::
  "(model_instance \<Rightarrow> 'a option) \<Rightarrow> arg \<Rightarrow> error + bool \<Rightarrow> ('a \<Rightarrow> error + bool)
     \<Rightarrow> error + bool" where
  "with_obj as a on_None f =
     (case a of
        NoneArg \<Rightarrow> on_None
      | Obj i \<Rightarrow> (case as i of None \<Rightarrow> Inl AttributeError | Some x \<Rightarrow> f x)
      | _ \<Rightarrow> Inl AttributeError)"

definition short_circuit :: "bool \<Rightarrow> error + bool" where
  "short_circuit b = (if b then Inr True else Inl AttributeError)"

definition opt_obj :: "(model_instance \<Rightarrow> 'a option) \<Rightarrow> arg \<Rightarrow> error + 'a option" where
  "opt_obj as a =
     (case a of
        NoneArg \<Rightarrow> Inr None
      | Obj i \<Rightarrow> (case as i of None \<Rightarrow> Inl AttributeError | Some x \<Rightarrow> Inr (Some x))
      | _ \<Rightarrow> Inl AttributeError)"

definition arg_data :: "arg \<Rightarrow> error + payload option" where
  "arg_data a = (case a of NoneArg \<Rightarrow> Inr None | Data d \<Rightarrow> Inr (Some d) | _ \<Rightarrow> Inl TypeError)"

definition arg_instance :: "arg \<Rightarrow> error + model_instance" where
  "arg_instance a = (case a of Obj i \<Rightarrow> Inr i | _ \<Rightarrow> Inl AttributeError)"

definition arg_flag :: "arg \<Rightarrow> error + bool" where
  "arg_flag a = (case a of Flag b \<Rightarrow> Inr b | NoneArg \<Rightarrow> Inr False | _ \<Rightarrow> Inl TypeError)"

definition arg_str :: "arg \<Rightarrow> error + string" where
  "arg_str a = (case a of Str r \<Rightarrow> Inr r | _ \<Rightarrow> Inl TypeError)"


definition BaseAccess_can_read :: "user \<Rightarrow> bool" where
  "BaseAccess_can_read u = is_superuser u"

definition BaseAccess_can_add :: "user \<Rightarrow> bool" where
  "BaseAccess_can_add u = is_superuser u"

definition BaseAccess_can_change :: "user \<Rightarrow> bool" where
  "BaseAccess_can_change u = is_superuser u"

definition BaseAccess_can_delete :: "user \<Rightarrow> bool" where
  "BaseAccess_can_delete u = is_superuser u"

text \<open>
  The method each class answers a name with: its own definition where the class has one,
  the default of \<open>BaseAccess\<close> otherwise.
\<close>

definition access_can_read ::
  "can_access \<Rightarrow> store \<Rightarrow> user \<Rightarrow> access_class \<Rightarrow> arg \<Rightarrow> error + bool" where
  "access_can_read can_access st u cls obj =
     (case cls of
        UserAccess \<Rightarrow>
          with_obj as_User obj
            (short_circuit
               (length (filter (\<lambda>t. user_pk u \<in> set (team_users t))
                          (user_teams st (user_pk u))) \<noteq> 0
                \<or> is_superuser u))
            (\<lambda>x. Inr (UserAccess_can_read st u x))
      | OrganizationAccess \<Rightarrow>
          with_obj as_Organization obj (short_circuit (is_superuser u))
            (\<lambda>x. Inr (OrganizationAccess_can_read u x))
      | InventoryAccess \<Rightarrow>
          and_then (opt_obj as_Inventory obj) (\<lambda>x. Inr (InventoryAccess_can_read st u x))
      | HostAccess \<Rightarrow> and_then (opt_obj as_Host obj) (HostAccess_can_read can_access st u)
      | GroupAccess \<Rightarrow> and_then (opt_obj as_Group obj) (GroupAccess_can_read can_access st u)
      | CredentialAccess \<Rightarrow>
          and_then (opt_obj as_Credential obj) (CredentialAccess_can_read st u)
      | TeamAccess \<Rightarrow>
          with_obj as_Team obj (short_circuit (is_superuser u)) (TeamAccess_can_read st u)
      | ProjectAccess \<Rightarrow>
          with_obj as_Project obj (short_circuit (is_superuser u)) (ProjectAccess_can_read st u)
      | PermissionAccess \<Rightarrow>
          with_obj as_Permission obj (Inl AttributeError) (PermissionAccess_can_read st u)
      | JobTemplateAccess \<Rightarrow>
          with_obj as_JobTemplate obj (Inl AttributeError) (JobTemplateAccess_can_read st u)
      | _ \<Rightarrow> Inr (BaseAccess_can_read u))"

definition access_can_add ::
  "can_access \<Rightarrow> store \<Rightarrow> environment \<Rightarrow> user \<Rightarrow> access_class \<Rightarrow> arg \<Rightarrow> error + bool" where
  "access_can_add can_access st env u cls data =
     and_then (arg_data data)
       (\<lambda>d. case cls of
          UserAccess \<Rightarrow> Inr (UserAccess_can_add st u d)
        | InventoryAccess \<Rightarrow> InventoryAccess_can_add can_access st u d
        | HostAccess \<Rightarrow> HostAccess_can_add can_access st env u d
        | GroupAccess \<Rightarrow> GroupAccess_can_add can_access st u d
        | CredentialAccess \<Rightarrow> CredentialAccess_can_add can_access st u d
        | TeamAccess \<Rightarrow> Inr (TeamAccess_can_add st u d)
        | JobTemplateAccess \<Rightarrow> JobTemplateAccess_can_add st u d
        | _ \<Rightarrow> Inr (BaseAccess_can_add u))"

definition access_can_change ::
  "can_access \<Rightarrow> store \<Rightarrow> user \<Rightarrow> access_class \<Rightarrow> arg \<Rightarrow> arg \<Rightarrow> error + bool" where
  "access_can_change can_access st u cls obj data =
     and_then (arg_data data)
       (\<lambda>d. case cls of
          UserAccess \<Rightarrow>
            with_obj as_User obj (short_circuit (is_superuser u))
              (\<lambda>x. Inr (UserAccess_can_change st u x d))
        | OrganizationAccess \<Rightarrow>
            with_obj as_Organization obj (short_circuit (is_superuser u))
              (\<lambda>x. Inr (OrganizationAccess_can_change u x d))
        | InventoryAccess \<Rightarrow>
            and_then (opt_obj as_Inventory obj)
              (\<lambda>x. InventoryAccess_can_change can_access st u x d)
        | HostAccess \<Rightarrow>
            and_then (opt_obj as_Host obj) (\<lambda>x. HostAccess_can_change can_access st u x d)
        | GroupAccess \<Rightarrow>
            and_then (opt_obj as_Group obj) (\<lambda>x. GroupAccess_can_change can_access st u x d)
        | CredentialAccess \<Rightarrow>
            with_obj as_Credential obj (short_circuit (is_superuser u))
              (\<lambda>x. CredentialAccess_can_change st u x d)
        | TeamAccess \<Rightarrow>
            with_obj as_Team obj (short_circuit (is_superuser u))
              (\<lambda>x. TeamAccess_can_change st u x d)
        | ProjectAccess \<Rightarrow>
            with_obj as_Project obj (short_circuit (is_superuser u))
              (\<lambda>x. ProjectAccess_can_change st u x d)
        | PermissionAccess \<Rightarrow>
            with_obj as_Permission obj (short_circuit (is_superuser u))
              (\<lambda>x. PermissionAccess_can_change st u x d)
        | JobTemplateAccess \<Rightarrow>
            with_obj as_JobTemplate obj (Inr (is_superuser u))
              (\<lambda>x. Inr (JobTemplateAccess_can_change u x d))
        | JobAccess \<Rightarrow>
            with_obj as_Job obj (if is_superuser u then Inl AttributeError else Inr False)
              (\<lambda>x. Inr (JobAccess_can_change u x d))
        | _ \<Rightarrow> Inr (BaseAccess_can_change u))"

text \<open>\<open>can_write\<close> is the alias of \<open>can_change\<close> in \<open>BaseAccess\<close>; no class overrides it.\<close>

definition access_can_write ::
  "can_access \<Rightarrow> store \<Rightarrow> user \<Rightarrow> access_class \<Rightarrow> arg \<Rightarrow> arg \<Rightarrow> error + bool" where
  "access_can_write can_access st u cls obj data = access_can_change can_access st u cls obj data"

definition access_can_admin ::
  "can_access \<Rightarrow> store \<Rightarrow> user \<Rightarrow> access_class \<Rightarrow> arg \<Rightarrow> arg \<Rightarrow> error + bool" where
  "access_can_admin can_access st u cls obj data =
     (case cls of
        UserAccess \<Rightarrow>
          and_then (arg_data data)
            (\<lambda>d. with_obj as_User obj (short_circuit (is_superuser u))
                    (\<lambda>x. Inr (UserAccess_can_admin st u x d)))
      | InventoryAccess \<Rightarrow>
          and_then (arg_data data)
            (\<lambda>d. and_then (opt_obj as_Inventory obj)
                    (\<lambda>x. InventoryAccess_can_admin can_access st u x d))
      | _ \<Rightarrow> access_can_change can_access st u cls obj data)"

definition access_can_delete ::
  "can_access \<Rightarrow> store \<Rightarrow> user \<Rightarrow> access_class \<Rightarrow> arg \<Rightarrow> error + bool" where
  "access_can_delete can_access st u cls obj =
     (case cls of
        UserAccess \<Rightarrow>
          with_obj as_User obj (Inl AttributeError) (\<lambda>x. Inr (UserAccess_can_delete st u x))
      | OrganizationAccess \<Rightarrow>
          with_obj as_Organization obj (short_circuit (is_superuser u))
            (\<lambda>x. Inr (OrganizationAccess_can_delete u x))
      | InventoryAccess \<Rightarrow>
          and_then (opt_obj as_Inventory obj) (InventoryAccess_can_delete can_access st u)
      | CredentialAccess \<Rightarrow>
          with_obj as_Credential obj (Inl AttributeError) (CredentialAccess_can_delete st u)
      | TeamAccess \<Rightarrow>
          with_obj as_Team obj (short_circuit (is_superuser u)) (TeamAccess_can_delete st u)
      | ProjectAccess \<Rightarrow>
          with_obj as_Project obj (short_circuit (is_superuser u))
            (ProjectAccess_can_delete st u)
      | PermissionAccess \<Rightarrow>
          with_obj as_Permission obj (short_circuit (is_superuser u))
            (PermissionAccess_can_delete st u)
      | _ \<Rightarrow> Inr (BaseAccess_can_delete u))"

definition access_can_attach ::
  "can_access \<Rightarrow> store \<Rightarrow> user \<Rightarrow> access_class \<Rightarrow> arg \<Rightarrow> arg \<Rightarrow> arg \<Rightarrow> arg \<Rightarrow> arg
     \<Rightarrow> error + bool" where
  "access_can_attach can_access st u cls obj sub_obj relationship data skip =
     and_then (arg_str relationship) (\<lambda>rel.
     and_then (arg_data data) (\<lambda>d.
     and_then (arg_flag skip) (\<lambda>skip_sub_obj_read_check.
       case sub_obj of
         NoneArg \<Rightarrow>
           (let self_can_change = access_can_change can_access st u cls obj NoneArg
            in if skip_sub_obj_read_check then self_can_change
               else py_and self_can_change (Inr False))
       | _ \<Rightarrow>
           and_then (arg_instance sub_obj) (\<lambda>sub.
             case cls of
               GroupAccess \<Rightarrow>
                 with_obj as_Group obj (Inr False)
                   (\<lambda>x. GroupAccess_can_attach can_access st u x sub rel d
                          skip_sub_obj_read_check)
             | _ \<Rightarrow>
                 BaseAccess_can_attach (access_can_change can_access st u cls obj NoneArg)
                   can_access sub skip_sub_obj_read_check))))"

definition access_can_unattach ::
  "can_access \<Rightarrow> store \<Rightarrow> user \<Rightarrow> access_class \<Rightarrow> arg \<Rightarrow> arg \<Rightarrow> arg \<Rightarrow> error + bool" where
  "access_can_unattach can_access st u cls obj sub_obj relationship =
     BaseAccess_can_unattach (access_can_change can_access st u cls obj NoneArg)"

text \<open>
  In \<open>access_can_attach\<close>, a sub-object that is \<open>None\<close> has the type of \<open>None\<close>, for which
  the registry has no access class: its read check is \<open>False\<close>, and \<open>GroupAccess\<close> finds
  the types of the two objects different. A group that is \<open>None\<close> cannot be changed, so
  its attach is refused.
\<close>

text \<open>
  \<open>getattr(access_instance, name, None)\<close> for a method name: the bound method, taking the
  positional arguments, or \<open>None\<close>. A call with the wrong number of arguments is a
  \<open>TypeError\<close>.
\<close>

definition access_getattr ::
  "can_access \<Rightarrow> store \<Rightarrow> environment \<Rightarrow> user \<Rightarrow> access_class \<Rightarrow> string
     \<Rightarrow> (arg list \<Rightarrow> error + bool) option" where
  "access_getattr can_access st env u cls name =
     (if name = ''can_read'' then
        Some (\<lambda>args. case args of
                [obj] \<Rightarrow> access_can_read can_access st u cls obj | _ \<Rightarrow> Inl TypeError)
      else if name = ''can_add'' then
        Some (\<lambda>args. case args of
                [data] \<Rightarrow> access_can_add can_access st env u cls data | _ \<Rightarrow> Inl TypeError)
      else if name = ''can_change'' then
        Some (\<lambda>args. case args of
                [obj, data] \<Rightarrow> access_can_change can_access st u cls obj data
              | _ \<Rightarrow> Inl TypeError)
      else if name = ''can_write'' then
        Some (\<lambda>args. case args of
                [obj, data] \<Rightarrow> access_can_write can_access st u cls obj data
              | _ \<Rightarrow> Inl TypeError)
      else if name = ''can_admin'' then
        Some (\<lambda>args. case args of
                [obj, data] \<Rightarrow> access_can_admin can_access st u cls obj data
              | _ \<Rightarrow> Inl TypeError)
      else if name = ''can_delete'' then
        Some (\<lambda>args. case args of
                [obj] \<Rightarrow> access_can_delete can_access st u cls obj | _ \<Rightarrow> Inl TypeError)
      else if name = ''can_attach'' then
        Some (\<lambda>args. case args of
                [obj, sub_obj, relationship, data] \<Rightarrow>
                  access_can_attach can_access st u cls obj sub_obj relationship data
                    (Flag False)
              | [obj, sub_obj, relationship, data, skip] \<Rightarrow>
                  access_can_attach can_access st u cls obj sub_obj relationship data skip
              | _ \<Rightarrow> Inl TypeError)
      else if name = ''can_unattach'' then
        Some (\<lambda>args. case args of
                [obj, sub_obj, relationship] \<Rightarrow>
                  access_can_unattach can_access st u cls obj sub_obj relationship
              | _ \<Rightarrow> Inl TypeError)
      else if cls = JobAccess \<and> name = ''can_start'' then
        Some (\<lambda>args. case args of
                [obj] \<Rightarrow> with_obj as_Job obj (Inr False) (\<lambda>x. Inr (JobAccess_can_start u x))
              | _ \<Rightarrow> Inl TypeError)
      else if cls = JobAccess \<and> name = ''can_cancel'' then
        Some (\<lambda>args. case args of
                [obj] \<Rightarrow> with_obj as_Job obj (Inr False) (\<lambda>x. Inr (JobAccess_can_cancel u x))
              | _ \<Rightarrow> Inl TypeError)
      else None)"

definition access_get_queryset ::
  "user_queryset \<Rightarrow> store \<Rightarrow> user \<Rightarrow> access_class \<Rightarrow> error + model_instance list" where
  "access_get_queryset get_queryset st u cls =
     (case cls of
        UserAccess \<Rightarrow> Inr (map User_instance (UserAccess_get_queryset st u))
      | OrganizationAccess \<Rightarrow>
          Inr (map Organization_instance (OrganizationAccess_get_queryset st u))
      | InventoryAccess \<Rightarrow>
          Inr (map Inventory_instance (InventoryAccess_get_queryset st u None))
      | HostAccess \<Rightarrow>
          and_then (HostAccess_get_queryset get_queryset st u)
            (\<lambda>qs. Inr (map Host_instance qs))
      | GroupAccess \<Rightarrow>
          and_then (GroupAccess_get_queryset get_queryset st u)
            (\<lambda>qs. Inr (map Group_instance qs))
      | CredentialAccess \<Rightarrow> Inr (map Credential_instance (CredentialAccess_get_queryset st u))
      | TeamAccess \<Rightarrow> Inr (map Team_instance (TeamAccess_get_queryset st u))
      | ProjectAccess \<Rightarrow> Inr (map Project_instance (ProjectAccess_get_queryset st u))
      | PermissionAccess \<Rightarrow> Inr (map Permission_instance (PermissionAccess_get_queryset st u))
      | JobTemplateAccess \<Rightarrow>
          Inr (map JobTemplate_instance (JobTemplateAccess_get_queryset st u))
      | JobAccess \<Rightarrow> Inr (map Job_instance (JobAccess_get_queryset st u))
      | JobHostSummaryAccess \<Rightarrow>
          Inr (map JobHostSummary_instance (JobHostSummaryAccess_get_queryset st u))
      | JobEventAccess \<Rightarrow> Inr (map JobEvent_instance (JobEventAccess_get_queryset st u)))"

text \<open>\<open>model_class.objects.all()\<close>.\<close>

definition objects_all :: "store \<Rightarrow> model_class \<Rightarrow> model_instance list" where
  "objects_all st model_class =
     (case model_class of
        User \<Rightarrow> map User_instance (User_objects st)
      | Organization \<Rightarrow> map Organization_instance (Organization_objects st)
      | Inventory \<Rightarrow> map Inventory_instance (Inventory_objects st)
      | Host \<Rightarrow> map Host_instance (Host_objects st)
      | Group \<Rightarrow> map Group_instance (Group_objects st)
      | Credential \<Rightarrow> map Credential_instance (Credential_objects st)
      | Team \<Rightarrow> map Team_instance (Team_objects st)
      | Project \<Rightarrow> map Project_instance (Project_objects st)
      | Permission \<Rightarrow> map Permission_instance (Permission_objects st)
      | JobTemplate \<Rightarrow> map JobTemplate_instance (JobTemplate_objects st)
      | Job \<Rightarrow> map Job_instance (Job_objects st)
      | JobHostSummary \<Rightarrow> map JobHostSummary_instance (JobHostSummary_objects st)
      | JobEvent \<Rightarrow> map JobEvent_instance (JobEvent_objects st))"

text \<open>
  The registry: \<open>access_registry\<close> is the dictionary after the thirteen
  \<open>register_access\<close> calls at the end of the module.
\<close>

type_synonym registry = "model_class \<Rightarrow> access_class list"

definition register_access :: "registry \<Rightarrow> model_class \<Rightarrow> access_class \<Rightarrow> registry" where
  "register_access reg model_class access_class =
     reg(model_class := reg model_class @ [access_class])"

definition access_registry :: registry where
  "access_registry =
     foldl (\<lambda>reg (m, a). register_access reg m a) (\<lambda>m. [])
       [(User, UserAccess), (Organization, OrganizationAccess),
        (Inventory, InventoryAccess), (Host, HostAccess), (Group, GroupAccess),
        (Credential, CredentialAccess), (Team, TeamAccess), (Project, ProjectAccess),
        (Permission, PermissionAccess), (JobTemplate, JobTemplateAccess),
        (Job, JobAccess), (JobHostSummary, JobHostSummaryAccess),
        (JobEvent, JobEventAccess)]"

text \<open>
  The loop of \<open>check_user_access\<close> over the access classes of a model: a class without the
  method is skipped, the first true result is returned, an exception propagates, and
  \<open>False\<close> is returned at the end.
\<close>

fun first_granting ::
  "(access_class \<Rightarrow> (arg list \<Rightarrow> error + bool) option) \<Rightarrow> access_class list \<Rightarrow> arg list
     \<Rightarrow> error + bool" where
  "first_granting getattr [] args = Inr False"
| "first_granting getattr (access_class # rest) args =
     (case getattr access_class of
        None \<Rightarrow> first_granting getattr rest args
      | Some access_method \<Rightarrow>
          (case access_method args of
             Inl e \<Rightarrow> Inl e
           | Inr result \<Rightarrow> if result then Inr True else first_granting getattr rest args))"

text \<open>
  \<open>check_user_access(user, model_class, action, *args)\<close>. A method may call back into
  \<open>check_user_access\<close> through \<open>user.can_access\<close>, and which method answers is decided by
  the registry, so the calls may nest without end for some registry. The first parameter
  bounds the depth of nested calls; past it the result is \<open>RecursionError\<close>, as in Python.
\<close>

primrec check_user_access ::
  "nat \<Rightarrow> registry \<Rightarrow> store \<Rightarrow> environment \<Rightarrow> user \<Rightarrow> model_class \<Rightarrow> string \<Rightarrow> arg list
     \<Rightarrow> error + bool" where
  "check_user_access 0 reg st env u model_class action args = Inl RecursionError"
| "check_user_access (Suc depth) reg st env u model_class action args =
     first_granting
       (\<lambda>access_class.
          access_getattr (check_user_access depth reg st env u) st env u access_class
            (''can_'' @ action))
       (reg model_class) args"

text \<open>\<open>get_user_queryset(user, model_class)\<close>, with the same bound on nested calls.\<close>

fun collect :: "(error + 'a) list \<Rightarrow> error + 'a list" where
  "collect [] = Inr []"
| "collect (x # xs) =
     (case x of Inl e \<Rightarrow> Inl e
      | Inr v \<Rightarrow> (case collect xs of Inl e \<Rightarrow> Inl e | Inr vs \<Rightarrow> Inr (v # vs)))"

primrec get_user_queryset ::
  "nat \<Rightarrow> registry \<Rightarrow> store \<Rightarrow> user \<Rightarrow> model_class \<Rightarrow> error + model_instance list" where
  "get_user_queryset 0 reg st u model_class = Inl RecursionError"
| "get_user_queryset (Suc depth) reg st u model_class =
     and_then
       (collect (map (\<lambda>access_class.
                   access_get_queryset (get_user_queryset depth reg st u) st u access_class)
                 (reg model_class)))
       (\<lambda>querysets.
          case querysets of
            [] \<Rightarrow> Inr []
          | [qs] \<Rightarrow> Inr qs
          | _ \<Rightarrow>
              Inr (foldl (\<lambda>queryset qs.
                            filter (\<lambda>x. instance_pk x \<in> set (map instance_pk qs)) queryset)
                     (objects_all st model_class) querysets))"

section \<open>A small store for concrete evaluations\<close>

text \<open>
  Alice is a superuser; Bob and Carol are ordinary users of organization 1, which has no
  admin. Bob is the only member of team 1. Inventory 1 belongs to organization 1 and holds
  host 1 and the groups 1 and 2. The stores below differ in the permissions, the team's
  projects and the rows that are inactive.
\<close>

definition alice :: user where
  "alice = \<lparr>user_pk = 1, is_superuser = True, is_active = True\<rparr>"

definition bob :: user where
  "bob = \<lparr>user_pk = 2, is_superuser = False, is_active = True\<rparr>"

definition carol :: user where
  "carol = \<lparr>user_pk = 3, is_superuser = False, is_active = True\<rparr>"

definition org1 :: organization where
  "org1 = \<lparr>organization_pk = 1, organization_admins = [], organization_users = [2, 3],
            organization_projects = [1]\<rparr>"

definition team1 :: team where
  "team1 = \<lparr>team_pk = 1, team_organization = 1, team_users = [2], team_projects = [],
             team_active = True\<rparr>"

definition inventory1 :: inventory where
  "inventory1 = \<lparr>inventory_pk = 1, inventory_organization = 1, inventory_active = True\<rparr>"

definition host1 :: host where
  "host1 = \<lparr>host_pk = 1, host_inventory = 1, host_active = True\<rparr>"

definition group_a :: group where
  "group_a = \<lparr>group_pk = 1, group_inventory = 1, group_parents = [], group_active = True\<rparr>"

definition group_b :: group where
  "group_b = \<lparr>group_pk = 2, group_inventory = 1, group_parents = [], group_active = True\<rparr>"

definition project1 :: project where
  "project1 = \<lparr>project_pk = 1, project_created_by = Some 1\<rparr>"

definition carols_credential :: credential where
  "carols_credential =
     \<lparr>credential_pk = 7, credential_user = Some 3, credential_team = None,
      credential_active = True\<rparr>"

definition retired_template :: job_template where
  "retired_template =
     \<lparr>job_template_pk = 1, job_template_inventory = 1, job_template_project = 1,
      job_template_job_type = PERM_INVENTORY_CHECK, job_template_active = False\<rparr>"

definition running_job :: job where
  "running_job = \<lparr>job_pk = 1, job_status = ''running''\<rparr>"

text \<open>A permission of Bob himself on inventory 1, with or without project 1.\<close>

definition bobs_permission :: "int option \<Rightarrow> perm_type \<Rightarrow> permission" where
  "bobs_permission proj level =
     \<lparr>permission_pk = 1, permission_user = Some 2, permission_team = None,
      permission_inventory = Some 1, permission_project = proj, permission_type = level\<rparr>"

text \<open>A permission of team 1 on inventory 1 and project 1.\<close>

definition team_permission :: "perm_type \<Rightarrow> permission" where
  "team_permission level =
     \<lparr>permission_pk = 2, permission_user = None, permission_team = Some 1,
      permission_inventory = Some 1, permission_project = Some 1, permission_type = level\<rparr>"

definition example_store :: "permission list \<Rightarrow> store" where
  "example_store perms =
     \<lparr>User_objects = [alice, bob, carol],
      Organization_objects = [org1],
      Team_objects = [team1],
      Inventory_objects = [inventory1],
      Host_objects = [host1],
      Group_objects = [group_a, group_b],
      Credential_objects = [carols_credential],
      Permission_objects = perms,
      Project_objects = [project1],
      JobTemplate_objects = [retired_template],
      Job_objects = [running_job],
      JobHostSummary_objects = [],
      JobEvent_objects = []\<rparr>"

text \<open>The license dictionary with no free instance out of ten, outside and inside a test run.\<close>

definition exhausted_license :: environment where
  "exhausted_license =
     \<lparr>validation_info = [(''free_instances'', 0), (''available_instances'', 10)],
      argv = [''manage.py'', ''runserver'']\<rparr>"

definition exhausted_license_under_test :: environment where
  "exhausted_license_under_test =
     \<lparr>validation_info = [(''free_instances'', 0), (''available_instances'', 10)],
      argv = [''manage.py'', ''test'']\<rparr>"

section \<open>Facts about the dispatcher\<close>

declare check_user_access.simps [simp del]
declare get_user_queryset.simps [simp del]

lemma access_registry_apply:
  "access_registry User = [UserAccess]"
  "access_registry Organization = [OrganizationAccess]"
  "access_registry Inventory = [InventoryAccess]"
  "access_registry Host = [HostAccess]"
  "access_registry Group = [GroupAccess]"
  "access_registry Credential = [CredentialAccess]"
  "access_registry Team = [TeamAccess]"
  "access_registry Project = [ProjectAccess]"
  "access_registry Permission = [PermissionAccess]"
  "access_registry JobTemplate = [JobTemplateAccess]"
  "access_registry Job = [JobAccess]"
  "access_registry JobHostSummary = [JobHostSummaryAccess]"
  "access_registry JobEvent = [JobEventAccess]"
  by (simp_all add: access_registry_def register_access_def)

lemma with_obj_simps:
  "with_obj as (Obj i) on_None f = (case as i of None \<Rightarrow> Inl AttributeError | Some x \<Rightarrow> f x)"
  "with_obj as NoneArg on_None f = on_None"
  by (simp_all add: with_obj_def)

lemma opt_obj_simps:
  "opt_obj as (Obj i) = (case as i of None \<Rightarrow> Inl AttributeError | Some x \<Rightarrow> Inr (Some x))"
  "opt_obj as NoneArg = Inr None"
  by (simp_all add: opt_obj_def)

lemma arg_data_simps:
  "arg_data NoneArg = Inr None"
  "arg_data (Data d) = Inr (Some d)"
  by (simp_all add: arg_data_def)


lemma and_then_simps:
  "and_then (Inl e) f = Inl e"
  "and_then (Inr x) f = f x"
  by (simp_all add: and_then_def)

lemma check_user_access_User_delete:
  "check_user_access (Suc depth) access_registry st env u User ''delete''
     [Obj (User_instance obj)] = Inr (UserAccess_can_delete st u obj)"
  by (simp add: check_user_access.simps access_registry_apply access_getattr_def
      access_can_delete_def with_obj_simps and_then_simps)

lemma filter_pk_row:
  assumes "filter P xs = [r]"
  shows "length (filter P (filter Q xs)) \<noteq> 0 \<longleftrightarrow> Q r"
proof -
  have "filter P (filter Q xs) = filter Q (filter P xs)"
    by (simp add: conj_commute)
  with assms show ?thesis by simp
qed

text \<open>
  What \<open>has_permission_types\<close> computes for an inventory that is a row of the store: it is
  active, and the actor is a superuser, an admin of its organization, or holds one of the
  allowed permissions on it directly or through a team.
\<close>

lemma has_permission_types_row:
  assumes row: "filter (\<lambda>x. inventory_pk x = inventory_pk iv) (Inventory_objects st) = [iv]"
    and allowed: "allowed \<noteq> []"
  shows "has_permission_types st u (Some iv) allowed =
     (inventory_active iv \<and>
      (is_superuser u
       \<or> list_ex (\<lambda>org. organization_pk org = inventory_organization iv
                    \<and> user_pk u \<in> set (organization_admins org)) (Organization_objects st)
       \<or> list_ex (\<lambda>p. permission_inventory p = Some (inventory_pk iv)
                    \<and> permission_user p = Some (user_pk u)
                    \<and> permission_type p \<in> set allowed) (Permission_objects st)
       \<or> list_ex (\<lambda>p. permission_inventory p = Some (inventory_pk iv)
                    \<and> list_ex (\<lambda>t. permission_team p = Some (team_pk t)
                                 \<and> user_pk u \<in> set (team_users t)) (Team_objects st)
                    \<and> permission_type p \<in> set allowed) (Permission_objects st)))"
proof (cases "is_superuser u")
  case True
  then show ?thesis
    using filter_pk_row [OF row, of inventory_active] allowed
    by (simp add: has_permission_types_def InventoryAccess_get_queryset_def Let_def)
next
  case False
  have c: "filter (\<lambda>x. inventory_pk x = inventory_pk iv)
             (filter Q (filter inventory_active (Inventory_objects st)))
      = filter (\<lambda>x. inventory_active x \<and> Q x)
          (filter (\<lambda>x. inventory_pk x = inventory_pk iv) (Inventory_objects st))" for Q
    by (simp add: conj_commute conj_left_commute cong: conj_cong)
  show ?thesis using False allowed
    unfolding has_permission_types_def InventoryAccess_get_queryset_def Let_def
    by (simp add: c row del: filter_filter)
qed

lemma check_user_access_Inventory_change_None:
  "check_user_access (Suc depth) access_registry st env u Inventory ''change''
     [Obj (Inventory_instance iv), NoneArg]
   = Inr (has_permission_types st u (Some iv) PERMISSION_TYPES_ALLOWING_INVENTORY_WRITE)"
  by (simp add: check_user_access.simps access_registry_apply access_getattr_def
      access_can_change_def opt_obj_simps
      arg_data_simps and_then_simps InventoryAccess_can_change_def truthy_def)

lemma check_user_access_Inventory_read:
  "check_user_access (Suc depth) access_registry st env u Inventory ''read''
     [Obj (Inventory_instance iv)]
   = Inr (InventoryAccess_can_read st u (Some iv))"
  by (simp add: check_user_access.simps access_registry_apply access_getattr_def
      access_can_read_def opt_obj_simps and_then_simps)

lemma check_user_access_Host_add:
  "check_user_access (Suc depth) access_registry st env u Host ''add'' [Data d]
   = HostAccess_can_add (check_user_access depth access_registry st env u) st env u (Some d)"
  by (simp add: check_user_access.simps access_registry_apply access_getattr_def
      access_can_add_def arg_data_simps and_then_simps split: sum.splits)

lemma str_int_10: "str_int 10 = ''10''"
  by (simp add: str_int_def str_nat.simps [of 10] str_nat.simps [of 1])

text \<open>With a write permission of his own on inventory 1, Bob may change it.\<close>

lemma bob_change_inventory1:
  "check_user_access (Suc depth) access_registry
     (example_store [bobs_permission None PERM_INVENTORY_WRITE]) env bob Inventory ''change''
     [Obj (Inventory_instance inventory1), NoneArg] = Inr True"
  unfolding check_user_access_Inventory_change_None
  by (simp add: has_permission_types_def InventoryAccess_get_queryset_def example_store_def
      bob_def inventory1_def org1_def bobs_permission_def
      PERMISSION_TYPES_ALLOWING_INVENTORY_WRITE_def)

lemma get_inventory1:
  "get_object_or_400 inventory_pk (Inventory_objects (example_store perms)) (PInt 1)
     = Inr inventory1"
  by (simp add: get_object_or_400_def objects_get_def example_store_def inventory1_def)

lemma list_ex_filter_single:
  assumes "filter Q xs = [p]" and "\<And>x. P x \<Longrightarrow> Q x"
  shows "list_ex P xs = P p"
proof -
  have "list_ex P xs = list_ex P (filter Q xs)"
    using assms(2) by (auto simp add: list_ex_iff)
  with assms(1) show ?thesis by simp
qed

text \<open>
  With a single permission on the inventory, and no admin right on its organization, the
  level of that permission decides \<open>has_permission_types\<close>.
\<close>

lemma single_grant_levels:
  assumes nsu: "\<not> is_superuser u"
    and row: "filter (\<lambda>x. inventory_pk x = inventory_pk iv) (Inventory_objects st) = [iv]"
    and active: "inventory_active iv"
    and not_admin: "\<not> list_ex (\<lambda>org. organization_pk org = inventory_organization iv
                       \<and> user_pk u \<in> set (organization_admins org)) (Organization_objects st)"
    and grant: "filter (\<lambda>p. permission_inventory p = Some (inventory_pk iv)
                     \<and> (permission_user p = Some (user_pk u)
                        \<or> list_ex (\<lambda>t. permission_team p = Some (team_pk t)
                                     \<and> user_pk u \<in> set (team_users t)) (Team_objects st)))
                  (Permission_objects st) = [p]"
    and allowed: "allowed \<noteq> []"
  shows "has_permission_types st u (Some iv) allowed = (permission_type p \<in> set allowed)"
proof -
  let ?Q = "\<lambda>p. permission_inventory p = Some (inventory_pk iv)
                     \<and> (permission_user p = Some (user_pk u)
                        \<or> list_ex (\<lambda>t. permission_team p = Some (team_pk t)
                                     \<and> user_pk u \<in> set (team_users t)) (Team_objects st))"
  have Qp: "?Q p"
  proof -
    have "p \<in> set (filter ?Q (Permission_objects st))" unfolding grant by simp
    then show ?thesis by simp
  qed
  have a: "list_ex (\<lambda>p. permission_inventory p = Some (inventory_pk iv)
                    \<and> permission_user p = Some (user_pk u)
                    \<and> permission_type p \<in> set allowed) (Permission_objects st)
       = (permission_inventory p = Some (inventory_pk iv)
                    \<and> permission_user p = Some (user_pk u)
                    \<and> permission_type p \<in> set allowed)"
    by (rule list_ex_filter_single [OF grant]) simp
  have b: "list_ex (\<lambda>p. permission_inventory p = Some (inventory_pk iv)
                    \<and> list_ex (\<lambda>t. permission_team p = Some (team_pk t)
                                 \<and> user_pk u \<in> set (team_users t)) (Team_objects st)
                    \<and> permission_type p \<in> set allowed) (Permission_objects st)
       = (permission_inventory p = Some (inventory_pk iv)
                    \<and> list_ex (\<lambda>t. permission_team p = Some (team_pk t)
                                 \<and> user_pk u \<in> set (team_users t)) (Team_objects st)
                    \<and> permission_type p \<in> set allowed)"
    by (rule list_ex_filter_single [OF grant]) simp
  show ?thesis
    unfolding has_permission_types_row [OF row allowed] a b
    using nsu active not_admin Qp by auto
qed

lemma InventoryAccess_without_organization:
  assumes "\<not> has_key (entries data) ''organization''"
  shows "InventoryAccess_can_change can_access st u obj data
           = Inr (has_permission_types st u obj PERMISSION_TYPES_ALLOWING_INVENTORY_WRITE)"
    and "InventoryAccess_can_admin can_access st u obj data
           = Inr (has_permission_types st u obj PERMISSION_TYPES_ALLOWING_INVENTORY_ADMIN)"
  using assms by (simp_all add: InventoryAccess_can_change_def InventoryAccess_can_admin_def)


lemma bob_facts:
  "\<not> is_superuser bob"
  "filter (\<lambda>x. inventory_pk x = inventory_pk inventory1) (Inventory_objects (example_store perms)) = [inventory1]"
  "inventory_active inventory1"
  "\<not> list_ex (\<lambda>org. organization_pk org = inventory_organization inventory1
                       \<and> user_pk bob \<in> set (organization_admins org)) (Organization_objects (example_store perms))"
  "filter (\<lambda>p. permission_inventory p = Some (inventory_pk inventory1)
                     \<and> (permission_user p = Some (user_pk bob)
                        \<or> list_ex (\<lambda>t. permission_team p = Some (team_pk t)
                                     \<and> user_pk bob \<in> set (team_users t)) (Team_objects (example_store [bobs_permission proj level]))))
                  (Permission_objects (example_store [bobs_permission proj level])) = [bobs_permission proj level]"
  "permission_user (bobs_permission proj level) = Some (user_pk bob)"
  by (simp_all add: bob_def inventory1_def example_store_def org1_def bobs_permission_def)



lemma launch_loop_other:
  "job_type \<noteq> PType PERM_INVENTORY_CHECK \<Longrightarrow> job_type \<noteq> PType PERM_INVENTORY_DEPLOY \<Longrightarrow>
     launch_loop job_type perms has = has"
  by (induction perms arbitrary: has) auto







lemma all_parents_iff:
  "k \<in> set (all_parents st g) \<longleftrightarrow>
     k \<in> group_pk ` set (Group_objects st) \<and> (k, group_pk g) \<in> (set (parent_links st))\<^sup>+"
  by (auto simp add: all_parents_def)

lemma all_children_iff:
  "k \<in> set (all_children st g) \<longleftrightarrow>
     k \<in> group_pk ` set (Group_objects st) \<and> (group_pk g, k) \<in> (set (parent_links st))\<^sup>+"
  by (auto simp add: all_children_def)

lemma cycle_test_iff:
  assumes a: "group_pk a \<in> group_pk ` set (Group_objects st)"
  shows "(set (all_parents st a) \<union> {group_pk a})
           \<inter> (set (all_children st b) \<union> {group_pk b}) \<noteq> {}
     \<longleftrightarrow> group_pk a = group_pk b \<or> group_pk a \<in> set (all_children st b)"
proof
  assume "(set (all_parents st a) \<union> {group_pk a})
            \<inter> (set (all_children st b) \<union> {group_pk b}) \<noteq> {}"
  then obtain z where z: "z \<in> set (all_parents st a) \<or> z = group_pk a"
    "z \<in> set (all_children st b) \<or> z = group_pk b" by auto
  then show "group_pk a = group_pk b \<or> group_pk a \<in> set (all_children st b)"
    using a by (auto simp add: all_parents_iff all_children_iff intro: trancl_trans)
next
  assume "group_pk a = group_pk b \<or> group_pk a \<in> set (all_children st b)"
  then show "(set (all_parents st a) \<union> {group_pk a})
               \<inter> (set (all_children st b) \<union> {group_pk b}) \<noteq> {}"
    by auto
qed

lemma GroupAccess_can_attach_groups:
  assumes "BaseAccess_can_attach (GroupAccess_can_change can_access st u (Some a) None)
             can_access (Group_instance b) skip = Inr True"
  shows "GroupAccess_can_attach can_access st u a (Group_instance b) rel data skip
     = Inr ((set (all_parents st a) \<union> {group_pk a})
              \<inter> (set (all_children st b) \<union> {group_pk b}) = {})"
  using assms by (simp add: GroupAccess_can_attach_def and_then_simps Let_def)

lemma group_pk_attach_group:
  "group_pk ` set (Group_objects (attach_group st a b)) = group_pk ` set (Group_objects st)"
proof -
  have "map group_pk (Group_objects (attach_group st a b)) = map group_pk (Group_objects st)"
    by (simp add: attach_group_def comp_def if_distrib cong: if_cong)
  then have "set (map group_pk (Group_objects (attach_group st a b)))
               = set (map group_pk (Group_objects st))"
    by simp
  then show ?thesis by simp
qed

lemma parent_links_attach_group:
  assumes "group_pk b \<in> group_pk ` set (Group_objects st)"
  shows "(group_pk a, group_pk b) \<in> set (parent_links (attach_group st a b))"
proof -
  from assms obtain g where g: "g \<in> set (Group_objects st)" "group_pk g = group_pk b" by auto
  then show ?thesis
    by (auto simp add: parent_links_def attach_group_def intro!: bexI [of _ g])
qed

lemma attach_then_reverse_refused:
  assumes a: "group_pk a \<in> group_pk ` set (Group_objects st)"
    and b: "group_pk b \<in> group_pk ` set (Group_objects st)"
  shows "GroupAccess_can_attach can_access (attach_group st a b) u b (Group_instance a) rel
           data skip \<noteq> Inr True"
proof -
  let ?st = "attach_group st a b"
  have "(group_pk a, group_pk b) \<in> (set (parent_links ?st))\<^sup>+"
    using parent_links_attach_group [OF b] by blast
  then have "group_pk a \<in> set (all_parents ?st b)"
    using a by (simp add: all_parents_iff group_pk_attach_group)
  then have ne: "(set (all_parents ?st b) \<union> {group_pk b})
                   \<inter> (set (all_children ?st a) \<union> {group_pk a}) \<noteq> {}"
    by auto
  show ?thesis
    using ne
    by (cases "BaseAccess_can_attach (GroupAccess_can_change can_access ?st u (Some b) None)
             can_access (Group_instance a) skip")
       (simp_all add: GroupAccess_can_attach_def and_then_simps Let_def)
qed

lemma check_user_access_Group_attach:
  "check_user_access (Suc depth) access_registry st env u Group ''attach''
     [Obj (Group_instance a), Obj sub, Str rel, NoneArg]
   = GroupAccess_can_attach (check_user_access depth access_registry st env u) st u a sub rel
       None False"
  by (simp add: check_user_access.simps access_registry_apply access_getattr_def
      access_can_attach_def arg_instance_def arg_str_def arg_flag_def arg_data_simps
      with_obj_simps and_then_simps split: sum.splits)


lemma inventory_of_1: "inventory_of (example_store perms) 1 = Inr inventory1"
  by (simp add: inventory_of_def objects_get_def example_store_def inventory1_def)

lemma bob_read_inventory1:
  "check_user_access (Suc depth) access_registry
     (example_store [bobs_permission None PERM_INVENTORY_WRITE]) env bob Inventory ''read''
     [Obj (Inventory_instance inventory1)] = Inr True"
  unfolding check_user_access_Inventory_read
  by (simp add: InventoryAccess_can_read_def has_permission_types_def
      InventoryAccess_get_queryset_def example_store_def
      bob_def inventory1_def org1_def bobs_permission_def
      PERMISSION_TYPES_ALLOWING_INVENTORY_READ_def)

lemma check_user_access_Group_read:
  "check_user_access (Suc depth) access_registry st env u Group ''read'' [Obj (Group_instance g)]
   = GroupAccess_can_read (check_user_access depth access_registry st env u) st u (Some g)"
  by (simp add: check_user_access.simps access_registry_apply access_getattr_def
      access_can_read_def opt_obj_simps and_then_simps split: sum.splits)











lemma unknown_action:
  assumes "action \<notin> {''read'', ''add'', ''change'', ''write'', ''admin'', ''delete'',
                      ''attach'', ''unattach'', ''start'', ''cancel''}"
  shows "check_user_access (Suc depth) access_registry st env u mc action args = Inr False"
  using assms
  by (cases mc) (simp_all add: check_user_access.simps access_registry_apply access_getattr_def)

lemma get_user_queryset_registered:
  "get_user_queryset (Suc depth) access_registry st u User
     = Inr (map User_instance (UserAccess_get_queryset st u))"
  "get_user_queryset (Suc depth) access_registry st u Organization
     = Inr (map Organization_instance (OrganizationAccess_get_queryset st u))"
  "get_user_queryset (Suc depth) access_registry st u Inventory
     = Inr (map Inventory_instance (InventoryAccess_get_queryset st u None))"
  "get_user_queryset (Suc depth) access_registry st u Credential
     = Inr (map Credential_instance (CredentialAccess_get_queryset st u))"
  "get_user_queryset (Suc depth) access_registry st u Team
     = Inr (map Team_instance (TeamAccess_get_queryset st u))"
  "get_user_queryset (Suc depth) access_registry st u Project
     = Inr (map Project_instance (ProjectAccess_get_queryset st u))"
  "get_user_queryset (Suc depth) access_registry st u Permission
     = Inr (map Permission_instance (PermissionAccess_get_queryset st u))"
  "get_user_queryset (Suc depth) access_registry st u JobTemplate
     = Inr (map JobTemplate_instance (JobTemplateAccess_get_queryset st u))"
  "get_user_queryset (Suc depth) access_registry st u Job
     = Inr (map Job_instance (JobAccess_get_queryset st u))"
  "get_user_queryset (Suc depth) access_registry st u JobHostSummary
     = Inr (map JobHostSummary_instance (JobHostSummaryAccess_get_queryset st u))"
  "get_user_queryset (Suc depth) access_registry st u JobEvent
     = Inr (map JobEvent_instance (JobEventAccess_get_queryset st u))"
  by (simp_all add: get_user_queryset.simps access_registry_apply access_get_queryset_def
      and_then_simps)



lemma py_int_examples:
  "py_int ''1'' = Some 1" "py_int '' 12 '' = Some 12" "py_int ''-7'' = Some (- 7)"
  "py_int ''run'' = None" "py_int '''' = None" "py_int ''+'' = None"
  by (simp_all add: py_int_def is_space_def digit_value_def)

lemma objects_get_string_key:
  "objects_get inventory_pk (Inventory_objects (example_store perms)) (PStr ''1'')
     = Inr inventory1"
  by (simp add: objects_get_def py_int_def is_space_def digit_value_def example_store_def
      inventory1_def)

lemma info_get_info_set: "info_get (info_set info k v) k d = v"
  by (simp add: info_get_def info_set_def)

text \<open>
  \<open>HostAccess.can_add\<close> once the inventory of the payload is found: the result of the
  change check on it, then the license, which a test run overrides.
\<close>

lemma HostAccess_can_add_gate:
  assumes key: "map_of d ''inventory'' = Some v"
    and target: "get_object_or_400 inventory_pk (Inventory_objects st) v = Inr iv"
    and change: "can_access Inventory ''change'' [Obj (Inventory_instance iv), NoneArg] = Inr ok"
  shows "HostAccess_can_add can_access st env u (Some d)
     = (if \<not> ok then Inr False
        else if ''test'' \<in> set (argv env)
                \<or> 0 < info_get (validation_info env) ''free_instances'' 0 then Inr True
        else Inl (PermissionDenied (''license range of ''
                       @ str_int (info_get (validation_info env) ''available_instances'' 0)
                       @ '' instances has been exceed'')))"
proof -
  from key have ne: "d \<noteq> []" by auto
  show ?thesis
    using key target change ne
    by (simp add: HostAccess_can_add_def truthy_def entries_def has_key_def dict_get_def
        and_then_simps Let_def info_get_info_set)
qed


















section \<open>The claims\<close>

text \<open>
  C6. A user cannot delete their own account, and the only remaining active superuser
  cannot be deleted by anyone, a superuser included: \<open>UserAccess.can_delete\<close> returns
  \<open>False\<close> in both cases, and so does the dispatcher for the action \<open>delete\<close> on the user
  model.
\<close>

theorem UserAccess_can_delete_refuses_self_and_last_superuser:
  "(user_pk obj = user_pk u \<longrightarrow>
      UserAccess_can_delete st u obj = False
    \<and> check_user_access (Suc depth) access_registry st env u User ''delete''
        [Obj (User_instance obj)] = Inr False)
 \<and> (is_superuser obj
      \<and> map user_pk (filter (\<lambda>x. is_active x \<and> is_superuser x) (User_objects st))
          = [user_pk obj] \<longrightarrow>
      UserAccess_can_delete st u obj = False
    \<and> check_user_access (Suc depth) access_registry st env u User ''delete''
        [Obj (User_instance obj)] = Inr False)"
proof -
  have self: "UserAccess_can_delete st u obj = False" if "user_pk obj = user_pk u"
    using that by (simp add: UserAccess_can_delete_def)
  have last: "UserAccess_can_delete st u obj = False"
    if s: "is_superuser obj"
      and m: "map user_pk (filter (\<lambda>x. is_active x \<and> is_superuser x) (User_objects st))
                = [user_pk obj]"
  proof -
    from m have "length (map user_pk
        (filter (\<lambda>x. is_active x \<and> is_superuser x) (User_objects st))) = 1"
      by simp
    then have "length (filter (\<lambda>x. is_active x \<and> is_superuser x) (User_objects st)) = 1"
      by simp
    with s show ?thesis
      by (simp add: UserAccess_can_delete_def Let_def)
  qed
  show ?thesis
    unfolding check_user_access_User_delete using self last by simp
qed

theorem UserAccess_can_delete_refuses_witness:
  "user_pk alice = user_pk alice \<and> is_superuser alice
   \<and> map user_pk (filter (\<lambda>x. is_active x \<and> is_superuser x) (User_objects (example_store [])))
       = [user_pk alice]
   \<and> UserAccess_can_delete (example_store []) alice alice = False
   \<and> check_user_access (Suc 0) access_registry (example_store []) exhausted_license alice
       User ''delete'' [Obj (User_instance alice)] = Inr False"
  using UserAccess_can_delete_refuses_self_and_last_superuser
    [of alice alice "example_store []" 0 exhausted_license]
  by (simp add: alice_def bob_def carol_def example_store_def)

text \<open>
  C7, evaluated where the code departs from it. Bob is on team 1 and Carol is not; Bob is
  not an admin of Carol's organization and is not Carol. \<open>UserAccess.can_read\<close> counts the
  teams of the actor that contain the actor, not the teams shared with the target, so Bob
  may read Carol.
\<close>

theorem UserAccess_can_read_grants_without_shared_team:
  "\<not> is_superuser bob
   \<and> user_pk bob \<noteq> user_pk carol
   \<and> filter (\<lambda>org. user_pk bob \<in> set (organization_admins org))
       (user_organizations (example_store []) (user_pk carol)) = []
   \<and> filter (\<lambda>t. user_pk bob \<in> set (team_users t))
       (user_teams (example_store []) (user_pk carol)) = []
   \<and> UserAccess_can_read (example_store []) bob carol = True
   \<and> check_user_access (Suc 0) access_registry (example_store []) exhausted_license bob
       User ''read'' [Obj (User_instance carol)] = Inr True"
  by (simp add: check_user_access.simps access_registry_apply access_getattr_def
      access_can_read_def with_obj_simps and_then_simps UserAccess_can_read_def UserAccess_can_change_def
      UserAccess_can_admin_def user_organizations_def user_teams_def example_store_def
      bob_def carol_def org1_def team1_def)

theorem UserAccess_can_read_grants_witness:
  "UserAccess_can_read (example_store []) bob carol"
  using UserAccess_can_read_grants_without_shared_team by simp

text \<open>
  C10. \<open>HostAccess.can_change\<close> raises \<open>PermissionDenied\<close>, for every actor, when it is
  given a host and a payload (a dictionary that is not empty) whose \<open>inventory\<close> entry is
  not the key of the host's inventory; a payload with no such entry counts, since
  \<open>data.get\<close> then gives \<open>None\<close>. The dispatcher passes the exception on.
\<close>

theorem HostAccess_can_change_raises_on_other_inventory:
  "d \<noteq> [] \<Longrightarrow> dict_get d ''inventory'' \<noteq> PInt (host_inventory obj) \<Longrightarrow>
     HostAccess_can_change can_access st u (Some obj) (Some d)
       = Inl (PermissionDenied ''Unable to change inventory on a host'')
   \<and> check_user_access (Suc depth) access_registry st env u Host ''change''
       [Obj (Host_instance obj), Data d]
       = Inl (PermissionDenied ''Unable to change inventory on a host'')"
  by (auto simp add: HostAccess_can_change_def truthy_def entries_def access_registry_apply
      check_user_access.simps access_getattr_def access_can_change_def opt_obj_simps arg_data_simps and_then_simps)

theorem HostAccess_can_change_raises_witness:
  "[(''inventory'', PInt 2)] \<noteq> []
   \<and> dict_get [(''inventory'', PInt 2)] ''inventory'' \<noteq> PInt (host_inventory host1)
   \<and> HostAccess_can_change
       (check_user_access 2 access_registry (example_store []) exhausted_license alice)
       (example_store []) alice (Some host1) (Some [(''inventory'', PInt 2)])
       = Inl (PermissionDenied ''Unable to change inventory on a host'')
   \<and> check_user_access (Suc 2) access_registry (example_store []) exhausted_license alice
       Host ''change'' [Obj (Host_instance host1), Data [(''inventory'', PInt 2)]]
       = Inl (PermissionDenied ''Unable to change inventory on a host'')"
  using HostAccess_can_change_raises_on_other_inventory
    [of "[(''inventory'', PInt 2)]" host1
      "check_user_access 2 access_registry (example_store []) exhausted_license alice"
      "example_store []" alice 2 exhausted_license]
  by (simp add: dict_get_def host1_def)

text \<open>
  C2, as the code has it. The actor may change the inventory named in the payload. Outside
  a test run (\<open>test\<close> is not among \<open>sys.argv\<close>) \<open>HostAccess.can_add\<close> returns \<open>True\<close>
  when the license dictionary reports more than zero free instances, and raises
  \<open>PermissionDenied\<close> with the number of available instances in its message when it
  reports none. In a test run it returns \<open>True\<close> whatever the license dictionary reports.
  The dispatcher gives the same results.
\<close>

theorem HostAccess_can_add_license_gate:
  assumes key: "map_of d ''inventory'' = Some v"
    and target: "get_object_or_400 inventory_pk (Inventory_objects st) v = Inr iv"
    and change: "check_user_access depth access_registry st env u Inventory ''change''
                   [Obj (Inventory_instance iv), NoneArg] = Inr True"
  shows "(''test'' \<notin> set (argv env)
          \<and> 0 < info_get (validation_info env) ''free_instances'' 0 \<longrightarrow>
            HostAccess_can_add (check_user_access depth access_registry st env u) st env u
              (Some d) = Inr True
          \<and> check_user_access (Suc depth) access_registry st env u Host ''add'' [Data d]
              = Inr True)
       \<and> (''test'' \<notin> set (argv env)
          \<and> info_get (validation_info env) ''free_instances'' 0 \<le> 0 \<longrightarrow>
            HostAccess_can_add (check_user_access depth access_registry st env u) st env u
              (Some d)
              = Inl (PermissionDenied (''license range of ''
                       @ str_int (info_get (validation_info env) ''available_instances'' 0)
                       @ '' instances has been exceed''))
          \<and> check_user_access (Suc depth) access_registry st env u Host ''add'' [Data d]
              = Inl (PermissionDenied (''license range of ''
                       @ str_int (info_get (validation_info env) ''available_instances'' 0)
                       @ '' instances has been exceed'')))
       \<and> (''test'' \<in> set (argv env) \<longrightarrow>
            HostAccess_can_add (check_user_access depth access_registry st env u) st env u
              (Some d) = Inr True
          \<and> check_user_access (Suc depth) access_registry st env u Host ''add'' [Data d]
              = Inr True)"
  unfolding check_user_access_Host_add
    HostAccess_can_add_gate
      [where can_access = "check_user_access depth access_registry st env u",
       OF key target change]
  by simp

theorem HostAccess_can_add_license_gate_witness:
  "''test'' \<notin> set (argv exhausted_license)
   \<and> map_of [(''inventory'', PInt 1)] ''inventory'' = Some (PInt 1)
   \<and> get_object_or_400 inventory_pk
        (Inventory_objects (example_store [bobs_permission None PERM_INVENTORY_WRITE])) (PInt 1)
        = Inr inventory1
   \<and> check_user_access (Suc 0) access_registry
        (example_store [bobs_permission None PERM_INVENTORY_WRITE]) exhausted_license bob
        Inventory ''change'' [Obj (Inventory_instance inventory1), NoneArg] = Inr True
   \<and> info_get (validation_info exhausted_license) ''free_instances'' 0 \<le> 0
   \<and> check_user_access (Suc (Suc 0)) access_registry
        (example_store [bobs_permission None PERM_INVENTORY_WRITE]) exhausted_license bob
        Host ''add'' [Data [(''inventory'', PInt 1)]]
        = Inl (PermissionDenied ''license range of 10 instances has been exceed'')"
proof -
  have a: "''test'' \<notin> set (argv exhausted_license)"
    by (simp add: exhausted_license_def)
  have b: "map_of [(''inventory'', PInt 1)] ''inventory'' = Some (PInt 1)" by simp
  have e: "info_get (validation_info exhausted_license) ''free_instances'' 0 \<le> 0"
    "info_get (validation_info exhausted_license) ''available_instances'' 0 = 10"
    by (simp_all add: info_get_def exhausted_license_def)
  show ?thesis
    using HostAccess_can_add_license_gate
        [OF b get_inventory1 bob_change_inventory1 [of 0 exhausted_license]]
      a b e get_inventory1 [of "[bobs_permission None PERM_INVENTORY_WRITE]"]
      bob_change_inventory1 [of 0 exhausted_license]
    by (simp add: str_int_10)
qed

text \<open>
  C2 as stated fails in a test run: with \<open>test\<close> among \<open>sys.argv\<close> the method overwrites
  the reported number of free instances, and an exhausted license no longer stops the
  creation of a host.
\<close>

theorem HostAccess_can_add_under_test_counterexample:
  "info_get (validation_info exhausted_license_under_test) ''free_instances'' 0 = 0
   \<and> check_user_access (Suc 0) access_registry
        (example_store [bobs_permission None PERM_INVENTORY_WRITE]) exhausted_license_under_test
        bob Inventory ''change'' [Obj (Inventory_instance inventory1), NoneArg] = Inr True
   \<and> check_user_access (Suc (Suc 0)) access_registry
        (example_store [bobs_permission None PERM_INVENTORY_WRITE]) exhausted_license_under_test
        bob Host ''add'' [Data [(''inventory'', PInt 1)]] = Inr True"
proof -
  have t: "''test'' \<in> set (argv exhausted_license_under_test)"
    by (simp add: exhausted_license_under_test_def)
  have "check_user_access (Suc (Suc 0)) access_registry
        (example_store [bobs_permission None PERM_INVENTORY_WRITE]) exhausted_license_under_test
        bob Host ''add'' [Data [(''inventory'', PInt 1)]] = Inr True"
    unfolding check_user_access_Host_add
    by (simp add: HostAccess_can_add_def truthy_def entries_def has_key_def dict_get_def
        get_inventory1 and_then_simps bob_change_inventory1 t info_get_def info_set_def Let_def)
  then show ?thesis
    by (simp add: bob_change_inventory1 info_get_def exhausted_license_under_test_def)
qed

text \<open>
  C3, as the code has it. The actor is not a superuser and not an admin of the
  organization of the inventory; the inventory is an active row of the store; the actor
  holds one permission on it, a direct one; the payload has no \<open>organization\<close> entry.
  With an admin permission the read, change, write and admin checks pass. With a read
  permission the read check passes and the others fail; with a write permission read,
  change and write pass and admin fails; with a check or a deploy permission all of them
  fail.
\<close>

theorem InventoryAccess_single_direct_grant:
  assumes nsu: "\<not> is_superuser u"
    and row: "filter (\<lambda>x. inventory_pk x = inventory_pk iv) (Inventory_objects st) = [iv]"
    and active: "inventory_active iv"
    and not_admin: "\<not> list_ex (\<lambda>org. organization_pk org = inventory_organization iv
                       \<and> user_pk u \<in> set (organization_admins org)) (Organization_objects st)"
    and grant: "filter (\<lambda>p. permission_inventory p = Some (inventory_pk iv)
                     \<and> (permission_user p = Some (user_pk u)
                        \<or> list_ex (\<lambda>t. permission_team p = Some (team_pk t)
                                     \<and> user_pk u \<in> set (team_users t)) (Team_objects st)))
                  (Permission_objects st) = [p]"
    and direct: "permission_user p = Some (user_pk u)"
    and payload: "\<not> has_key (entries data) ''organization''"
    and arg: "arg_data a = Inr data"
  shows "(permission_type p = PERM_INVENTORY_ADMIN \<longrightarrow>
            InventoryAccess_can_read st u (Some iv) = True
          \<and> InventoryAccess_can_change can_access st u (Some iv) data = Inr True
          \<and> access_can_write can_access st u InventoryAccess (Obj (Inventory_instance iv)) a
              = Inr True
          \<and> InventoryAccess_can_admin can_access st u (Some iv) data = Inr True)
       \<and> (permission_type p = PERM_INVENTORY_READ \<longrightarrow>
            InventoryAccess_can_read st u (Some iv) = True
          \<and> InventoryAccess_can_change can_access st u (Some iv) data = Inr False
          \<and> access_can_write can_access st u InventoryAccess (Obj (Inventory_instance iv)) a
              = Inr False
          \<and> InventoryAccess_can_admin can_access st u (Some iv) data = Inr False)
       \<and> (permission_type p = PERM_INVENTORY_WRITE \<longrightarrow>
            InventoryAccess_can_read st u (Some iv) = True
          \<and> InventoryAccess_can_change can_access st u (Some iv) data = Inr True
          \<and> access_can_write can_access st u InventoryAccess (Obj (Inventory_instance iv)) a
              = Inr True
          \<and> InventoryAccess_can_admin can_access st u (Some iv) data = Inr False)
       \<and> (permission_type p = PERM_INVENTORY_CHECK \<or> permission_type p = PERM_INVENTORY_DEPLOY
            \<longrightarrow>
            InventoryAccess_can_read st u (Some iv) = False
          \<and> InventoryAccess_can_change can_access st u (Some iv) data = Inr False
          \<and> access_can_write can_access st u InventoryAccess (Obj (Inventory_instance iv)) a
              = Inr False
          \<and> InventoryAccess_can_admin can_access st u (Some iv) data = Inr False)"
proof -
  note lv = single_grant_levels [OF nsu row active not_admin grant]
  have w: "access_can_write can_access st u InventoryAccess (Obj (Inventory_instance iv)) a
     = InventoryAccess_can_change can_access st u (Some iv) data"
    using arg by (simp add: access_can_write_def access_can_change_def and_then_simps opt_obj_simps)
  show ?thesis
    unfolding w InventoryAccess_without_organization [OF payload] InventoryAccess_can_read_def
    by (simp add: lv PERMISSION_TYPES_ALLOWING_INVENTORY_READ_def
        PERMISSION_TYPES_ALLOWING_INVENTORY_WRITE_def PERMISSION_TYPES_ALLOWING_INVENTORY_ADMIN_def)
qed


theorem InventoryAccess_single_direct_grant_witness:
  "\<not> is_superuser bob
   \<and> Permission_objects (example_store [bobs_permission None PERM_INVENTORY_READ])
       = [bobs_permission None PERM_INVENTORY_READ]
   \<and> permission_type (bobs_permission None PERM_INVENTORY_READ) = PERM_INVENTORY_READ
   \<and> InventoryAccess_can_read (example_store [bobs_permission None PERM_INVENTORY_READ]) bob (Some inventory1) = True
   \<and> InventoryAccess_can_change (check_user_access (Suc 0) access_registry (example_store [bobs_permission None PERM_INVENTORY_READ]) exhausted_license bob)
       (example_store [bobs_permission None PERM_INVENTORY_READ]) bob (Some inventory1) None = Inr False
   \<and> InventoryAccess_can_admin (check_user_access (Suc 0) access_registry (example_store [bobs_permission None PERM_INVENTORY_READ]) exhausted_license bob)
       (example_store [bobs_permission None PERM_INVENTORY_READ]) bob (Some inventory1) None = Inr False"
  using InventoryAccess_single_direct_grant [OF bob_facts(1) bob_facts(2) bob_facts(3) bob_facts(4) bob_facts(5) bob_facts(6),
      of None NoneArg None PERM_INVENTORY_READ
      "check_user_access (Suc 0) access_registry (example_store [bobs_permission None PERM_INVENTORY_READ]) exhausted_license bob"]
  by (simp add: entries_def has_key_def arg_data_simps bob_facts)
     (simp add: example_store_def bobs_permission_def)


text \<open>
  C3 as stated fails for the half of the level it calls read/check: a check permission is not
  in \<open>PERMISSION_TYPES_ALLOWING_INVENTORY_READ\<close>, and Bob, who holds only that on the
  active inventory 1, may not read it.
\<close>

theorem InventoryAccess_check_grant_counterexample:
  "\<not> is_superuser bob
   \<and> inventory_active inventory1
   \<and> organization_admins org1 = []
   \<and> Permission_objects (example_store [bobs_permission None PERM_INVENTORY_CHECK])
       = [bobs_permission None PERM_INVENTORY_CHECK]
   \<and> InventoryAccess_can_read (example_store [bobs_permission None PERM_INVENTORY_CHECK]) bob (Some inventory1) = False
   \<and> check_user_access (Suc 0) access_registry (example_store [bobs_permission None PERM_INVENTORY_CHECK])
       exhausted_license bob Inventory ''read'' [Obj (Inventory_instance inventory1)] = Inr False"
  unfolding check_user_access_Inventory_read
  by (simp add: InventoryAccess_can_read_def has_permission_types_def InventoryAccess_get_queryset_def
      example_store_def bob_def inventory1_def org1_def bobs_permission_def
      PERMISSION_TYPES_ALLOWING_INVENTORY_READ_def)





text \<open>
  C8, evaluated where the code departs from it. Bob is a member of team 1, which holds a
  check permission on inventory 1 and project 1. While team 1 is not associated with the
  project, \<open>can_add\<close> returns \<open>True\<close>; once the team is associated with the project it
  returns \<open>False\<close>. The last test of the method returns \<open>False\<close> when the actor is on
  a team of the project, the opposite of what its comment asks for.
\<close>

theorem JobTemplateAccess_can_add_team_check_inverted:
  "\<not> is_superuser bob
   \<and> user_pk bob \<in> set (team_users team1)
   \<and> project_teams (example_store [team_permission PERM_INVENTORY_CHECK])
       (project_pk project1) = []
   \<and> JobTemplateAccess_can_add (example_store [team_permission PERM_INVENTORY_CHECK]) bob
       (Some [(''project'', PInt 1), (''inventory'', PInt 1),
              (''job_type'', PType PERM_INVENTORY_CHECK)]) = Inr True
   \<and> project_teams
        ((example_store [team_permission PERM_INVENTORY_CHECK])
           \<lparr>Team_objects := [team1\<lparr>team_projects := [1]\<rparr>]\<rparr>) (project_pk project1)
       = [team1\<lparr>team_projects := [1]\<rparr>]
   \<and> JobTemplateAccess_can_add
        ((example_store [team_permission PERM_INVENTORY_CHECK])
           \<lparr>Team_objects := [team1\<lparr>team_projects := [1]\<rparr>]\<rparr>) bob
       (Some [(''project'', PInt 1), (''inventory'', PInt 1),
              (''job_type'', PType PERM_INVENTORY_CHECK)]) = Inr False"
  by (simp add: JobTemplateAccess_can_add_def truthy_def entries_def has_key_def dict_item_def
      dict_get_def objects_get_def and_then_simps has_launch_permission_def
      project_organizations_def project_teams_def
      example_store_def bob_def project1_def inventory1_def org1_def team1_def
      team_permission_def)

theorem JobTemplateAccess_can_add_team_check_witness:
  "JobTemplateAccess_can_add (example_store [team_permission PERM_INVENTORY_CHECK]) bob
     (Some [(''project'', PInt 1), (''inventory'', PInt 1),
            (''job_type'', PType PERM_INVENTORY_CHECK)]) = Inr True"
  using JobTemplateAccess_can_add_team_check_inverted by simp

text \<open>
  C5. Group A and group B are rows of the store, and the actor passes the base
  requirements: change access on A and read access on B. Then \<open>GroupAccess.can_attach\<close>
  of B as a child of A returns \<open>False\<close> when A is B or a descendant of B, and \<open>True\<close>
  otherwise; A is B or a descendant of B exactly when the ancestors of A with A and the
  descendants of B with B have a key in common; and once B has been attached to A, no
  attach of A as a child of B succeeds, whoever asks.
\<close>

theorem GroupAccess_can_attach_refuses_cycles:
  assumes a: "group_pk a \<in> group_pk ` set (Group_objects st)"
    and b: "group_pk b \<in> group_pk ` set (Group_objects st)"
    and change: "GroupAccess_can_change (check_user_access depth access_registry st env u) st u
                   (Some a) None = Inr True"
    and read: "check_user_access depth access_registry st env u Group ''read''
                 [Obj (Group_instance b)] = Inr True"
  shows "GroupAccess_can_attach (check_user_access depth access_registry st env u) st u a
           (Group_instance b) rel data skip
         = Inr (\<not> (group_pk a = group_pk b \<or> group_pk a \<in> set (all_children st b)))
       \<and> check_user_access (Suc depth) access_registry st env u Group ''attach''
           [Obj (Group_instance a), Obj (Group_instance b), Str rel, NoneArg]
         = Inr (\<not> (group_pk a = group_pk b \<or> group_pk a \<in> set (all_children st b)))
       \<and> ((group_pk a = group_pk b \<or> group_pk a \<in> set (all_children st b)) \<longleftrightarrow>
            (set (all_parents st a) \<union> {group_pk a})
              \<inter> (set (all_children st b) \<union> {group_pk b}) \<noteq> {})
       \<and> GroupAccess_can_attach can_access' (attach_group st a b) u b (Group_instance a)
           rel' data' skip' \<noteq> Inr True"
proof -
  have base: "BaseAccess_can_attach
      (GroupAccess_can_change (check_user_access depth access_registry st env u) st u (Some a)
         None)
      (check_user_access depth access_registry st env u) (Group_instance b) sk = Inr True" for sk
    using change read by (simp add: BaseAccess_can_attach_def py_and_def)
  have eq: "((set (all_parents st a) \<union> {group_pk a})
               \<inter> (set (all_children st b) \<union> {group_pk b}) = {})
            = (\<not> (group_pk a = group_pk b \<or> group_pk a \<in> set (all_children st b)))"
    using cycle_test_iff [OF a, of b] by blast
  show ?thesis
    unfolding check_user_access_Group_attach GroupAccess_can_attach_groups [OF base] eq
    using cycle_test_iff [OF a, of b] attach_then_reverse_refused [OF a b]
    by blast
qed


theorem GroupAccess_can_attach_refuses_cycles_witness:
  "group_pk group_a
     \<in> group_pk ` set (Group_objects (example_store [bobs_permission None PERM_INVENTORY_WRITE]))
   \<and> group_pk group_b
     \<in> group_pk ` set (Group_objects (example_store [bobs_permission None PERM_INVENTORY_WRITE]))
   \<and> GroupAccess_can_change
        (check_user_access (Suc (Suc 0)) access_registry
           (example_store [bobs_permission None PERM_INVENTORY_WRITE]) exhausted_license bob)
        (example_store [bobs_permission None PERM_INVENTORY_WRITE]) bob (Some group_a) None
        = Inr True
   \<and> check_user_access (Suc (Suc 0)) access_registry
        (example_store [bobs_permission None PERM_INVENTORY_WRITE]) exhausted_license bob
        Group ''read'' [Obj (Group_instance group_b)] = Inr True
   \<and> check_user_access (Suc (Suc (Suc 0))) access_registry
        (example_store [bobs_permission None PERM_INVENTORY_WRITE]) exhausted_license bob
        Group ''attach'' [Obj (Group_instance group_a), Obj (Group_instance group_b),
                          Str ''children'', NoneArg] = Inr True
   \<and> GroupAccess_can_attach
        (check_user_access (Suc (Suc 0)) access_registry
           (attach_group (example_store [bobs_permission None PERM_INVENTORY_WRITE]) group_a
              group_b)
           exhausted_license bob)
        (attach_group (example_store [bobs_permission None PERM_INVENTORY_WRITE]) group_a group_b)
        bob group_b (Group_instance group_a) ''children'' None False \<noteq> Inr True"
proof -
  let ?st = "example_store [bobs_permission None PERM_INVENTORY_WRITE]"
  let ?ca = "check_user_access (Suc (Suc 0)) access_registry ?st exhausted_license bob"
  have a: "group_pk group_a \<in> group_pk ` set (Group_objects ?st)"
    and b: "group_pk group_b \<in> group_pk ` set (Group_objects ?st)"
    by (simp_all add: example_store_def)
  have change: "GroupAccess_can_change ?ca ?st bob (Some group_a) None = Inr True"
    by (simp add: GroupAccess_can_change_def group_a_def inventory_of_1 and_then_simps
        bob_change_inventory1)
  have read: "?ca Group ''read'' [Obj (Group_instance group_b)] = Inr True"
    unfolding check_user_access_Group_read
    by (simp add: GroupAccess_can_read_def group_b_def inventory_of_1 and_then_simps
        bob_read_inventory1)
  have pks: "group_pk group_a = 1" "group_pk group_b = 2"
    by (simp_all add: group_a_def group_b_def)
  have none: "all_children ?st group_b = []"
    by (simp add: all_children_def parent_links_def example_store_def group_a_def group_b_def)
  show ?thesis
    using GroupAccess_can_attach_refuses_cycles [OF a b change read, of "''children''" None False
        "check_user_access (Suc (Suc 0)) access_registry (attach_group ?st group_a group_b)
           exhausted_license bob" "''children''" None False]
      a b change read
    by (simp add: none pks)
qed





text \<open>
  C9, evaluated where the code departs from it. Job template 1 is inactive.
  \<open>JobTemplateAccess.get_queryset\<close> filters \<open>active=True\<close> for ordinary users only: the
  queryset of the superuser Alice contains the inactive template.
\<close>

theorem JobTemplateAccess_get_queryset_inactive_for_superuser:
  "is_superuser alice
   \<and> \<not> job_template_active retired_template
   \<and> get_user_queryset (Suc 0) access_registry (example_store []) alice JobTemplate
       = Inr [JobTemplate_instance retired_template]"
  by (simp add: get_user_queryset_registered JobTemplateAccess_get_queryset_def
      example_store_def alice_def retired_template_def)

theorem JobTemplateAccess_get_queryset_inactive_witness:
  "get_user_queryset (Suc 0) access_registry (example_store []) alice JobTemplate
     = Inr [JobTemplate_instance retired_template]"
  using JobTemplateAccess_get_queryset_inactive_for_superuser by simp

end
